theory Spec2Isabelle
  imports Complex_Main "HOL-Library.Multiset"
begin

section \<open>Data model (types.ts)\<close>

text \<open>
  JavaScript numbers are idealised as reals: NaN and the infinities are not represented,
  and arithmetic is exact. Where a property below rests on a quotient, the divisor is
  shown to be non-zero on the path that is taken. A JavaScript string is a list of
  characters, one per code unit, so that \<open>length\<close> is \<open>String.length\<close> and \<open>take n\<close> is
  \<open>substring(0, n)\<close>.
\<close>

type_synonym number = real

text \<open>\<open>x || d\<close> on numbers: \<open>0\<close> is falsy, every other number is kept.\<close>

definition or_default :: "number \<Rightarrow> number \<Rightarrow> number" where
  "or_default x d = (if x = 0 then d else x)"

record Subtitle =
  sub_id :: string
  startTime :: number
  endTime :: number
  sub_text :: string

record CropData =
  crop_x :: number
  crop_y :: number
  scale :: number

record ImageAdjustments =
  brightness :: number
  contrast :: number
  saturation :: number
  sepia :: number
  grayscale :: number
  blur :: number

datatype TextAnimation = AnimNone | Fade | SlideUp | Typewriter

record TextOverlay =
  ov_id :: string
  ov_text :: string
  ov_x :: number
  ov_y :: number
  fontSize :: number
  fontFamily :: string
  color :: string
  opacity :: number
  animation :: TextAnimation
  animationDuration :: number

text \<open>A browser \<open>File\<close>: only its name and MIME type are read by the editor.\<close>

record File =
  file_name :: string
  file_type :: string

record ImageAsset =
  img_id :: string
  img_url :: string
  img_file :: File
  crop :: "CropData option"
  adjustments :: "ImageAdjustments option"
  duration :: number
  textOverlays :: "TextOverlay list"

record AudioAsset =
  audio_url :: string
  audio_file :: File
  audio_duration :: number

datatype AppState = IDLE | PROCESSING | READY | EXPORTING

datatype TransitionEffect = TransNone | TransFade | TransSlide | TransZoom

datatype VideoResolution = R720p | R1080p

datatype VideoFrameRate = Fps30 | Fps60

datatype ToastType = Info | Success | Error

section \<open>Browser objects held in refs\<close>

text \<open>
  The canvas element with its 2D context (\<open>canvasRef\<close>), an image element
  (\<open>imageElementsRef\<close>) and an audio element (\<open>audioRef\<close>, \<open>bgAudioRef\<close>), each reduced
  to what the editor reads or writes. An image element whose file could not be decoded is
  \<open>broken\<close>: the code does not read that, but \<open>drawImage\<close> throws on such an element.
  \<open>onended_set\<close> says that the export's \<open>onended\<close> handler is installed on the element.
\<close>

record Canvas =
  width :: number
  height :: number

record HTMLImageElement =
  el_src :: string
  el_width :: number
  el_height :: number
  complete :: bool
  broken :: bool

record HTMLAudioElement =
  paused :: bool
  el_currentTime :: number
  onended_set :: bool

datatype RecordingState = Inactive | Recording

text \<open>
  A \<open>MediaRecorder\<close> with the options it was built from and the \<open>chunks\<close> array its
  \<open>ondataavailable\<close> handler fills (each chunk by its size in bytes).
\<close>

record MediaRecorder =
  rec_state :: RecordingState
  mimeType :: string
  videoBitsPerSecond :: "nat option"
  audioTracks :: bool
  chunks :: "nat list"

text \<open>A file offered for download: its name and the sizes of the parts of its blob.\<close>

record Download =
  download_name :: string
  blob_parts :: "nat list"

section \<open>State of the App component\<close>

record App =
  appState :: AppState
  audioAsset :: "AudioAsset option"
  bgAudioAsset :: "AudioAsset option"
  lyrics :: "Subtitle list"
  images :: "ImageAsset list"
  isPlaying :: bool
  currentTime :: number
  toasts :: "(string \<times> ToastType) list"
  selectedImageId :: "string option"
  transitionEffect :: TransitionEffect
  transitionDuration :: number
  resolution :: VideoResolution
  frameRate :: VideoFrameRate
  canvasRef :: "Canvas option"
  imageElementsRef :: "string \<rightharpoonup> HTMLImageElement"
  audioRef :: "HTMLAudioElement option"
  bgAudioRef :: "HTMLAudioElement option"
  destNodeRef :: bool
  speakersGainNodeRef :: "number option"
  recorder :: "MediaRecorder option"
  timers :: "number list"
  downloads :: "Download list"

text \<open>\<open>addToast(message, type)\<close>; the random toast id is not kept.\<close>

definition addToast :: "string \<Rightarrow> ToastType \<Rightarrow> App \<Rightarrow> App" where
  "addToast message ty st = st\<lparr>toasts := toasts st @ [(message, ty)]\<rparr>"

section \<open>Timeline duration (App, lines 333-334)\<close>

text \<open>\<open>images.reduce((acc, img) => acc + img.duration, 0)\<close>\<close>

definition totalImageDuration :: "ImageAsset list \<Rightarrow> number" where
  "totalImageDuration imgs = foldl (\<lambda>acc img. acc + duration img) 0 imgs"

text \<open>\<open>audioAsset?.duration || 0\<close>: an absent asset gives \<open>undefined\<close>, which is falsy.\<close>

definition mainAudioDuration :: "AudioAsset option \<Rightarrow> number" where
  "mainAudioDuration a =
     (case a of None \<Rightarrow> 0 | Some asset \<Rightarrow> or_default (audio_duration asset) 0)"

text \<open>\<open>Math.max(audioAsset?.duration || 0, totalImageDuration || 10)\<close>\<close>

definition totalDuration :: "App \<Rightarrow> number" where
  "totalDuration st =
     max (mainAudioDuration (audioAsset st)) (or_default (totalImageDuration (images st)) 10)"

section \<open>Clock resolution\<close>

text \<open>
  The loop of \<open>getActiveImageIndex\<close> (lines 339-349) over the remaining clips, with the
  loop index and \<open>accumulatedTime\<close>; \<open>None\<close> when the loop ends without returning.
\<close>

fun getActiveImageIndex_loop ::
  "number \<Rightarrow> ImageAsset list \<Rightarrow> nat \<Rightarrow> number \<Rightarrow> nat option" where
  "getActiveImageIndex_loop t [] i accumulatedTime = None"
| "getActiveImageIndex_loop t (img # rest) i accumulatedTime =
     (if t \<ge> accumulatedTime \<and> t < accumulatedTime + duration img then Some i
      else getActiveImageIndex_loop t rest (Suc i) (accumulatedTime + duration img))"

definition getActiveImageIndex :: "App \<Rightarrow> int" where
  "getActiveImageIndex st =
     (if length (images st) = 0 then - 1
      else case getActiveImageIndex_loop (currentTime st) (images st) 0 0 of
             Some i \<Rightarrow> int i
           | None \<Rightarrow> int (length (images st)) - 1)"

text \<open>
  The loop at the head of \<open>drawCanvas\<close> (lines 647-648): it yields \<open>activeIndex\<close> together
  with \<open>activeImageStartTime\<close>, and \<open>None\<close> stands for \<open>activeIndex = -1\<close> after the loop.
\<close>

fun drawCanvas_loop ::
  "number \<Rightarrow> ImageAsset list \<Rightarrow> nat \<Rightarrow> number \<Rightarrow> (nat \<times> number) option" where
  "drawCanvas_loop t [] i accumulatedTime = None"
| "drawCanvas_loop t (img # rest) i accumulatedTime =
     (let dur = duration img in
      if t \<ge> accumulatedTime \<and> t < accumulatedTime + dur then Some (i, accumulatedTime)
      else drawCanvas_loop t rest (Suc i) (accumulatedTime + dur))"

text \<open>
  The start time of clip \<open>i\<close>, as the timeline computes it (Timeline.tsx, line 192):
  \<open>images.slice(0, i).reduce((acc, curr) => acc + curr.duration, 0)\<close>. The loop of
  \<open>renderLayer\<close> that sums the durations before \<open>idx\<close> into \<open>lst\<close> computes the same.
\<close>

definition clipStartTime :: "ImageAsset list \<Rightarrow> nat \<Rightarrow> number" where
  "clipStartTime imgs i = foldl (\<lambda>acc curr. acc + duration curr) 0 (take i imgs)"

text \<open>Clip \<open>i\<close> covers time \<open>t\<close>: its cumulative start is at most \<open>t\<close>, its end is after \<open>t\<close>.\<close>

definition inClipWindow :: "ImageAsset list \<Rightarrow> number \<Rightarrow> nat \<Rightarrow> bool" where
  "inClipWindow imgs t i =
     (clipStartTime imgs i \<le> t \<and> t < clipStartTime imgs i + duration (imgs ! i))"

text \<open>\<open>currentTime - activeImageStartTime\<close> (lines 666 and 671).\<close>

definition relativeTime :: "App \<Rightarrow> number \<Rightarrow> number" where
  "relativeTime st activeImageStartTime = currentTime st - activeImageStartTime"

section \<open>Numbers that need not be finite\<close>

text \<open>
  \<open>renderLayer\<close> divides by the size of an image element, by the height of the canvas and
  by the duration of a clip, each of which can be zero. There a JavaScript number is a
  real, an infinity or NaN, with the arithmetic of IEEE 754 on those values (the sign of
  a zero is not kept: a zero divisor counts as positive).
\<close>

datatype jsnum = Fin number | PosInf | NegInf | NaN

fun isFin :: "jsnum \<Rightarrow> bool" where
  "isFin (Fin a) = True"
| "isFin x = False"

fun fin :: "jsnum \<Rightarrow> number" where
  "fin (Fin a) = a"
| "fin x = 0"

fun js_neg :: "jsnum \<Rightarrow> jsnum" where
  "js_neg (Fin a) = Fin (- a)"
| "js_neg PosInf = NegInf"
| "js_neg NegInf = PosInf"
| "js_neg NaN = NaN"

fun js_add :: "jsnum \<Rightarrow> jsnum \<Rightarrow> jsnum" where
  "js_add NaN y = NaN"
| "js_add x NaN = NaN"
| "js_add (Fin a) (Fin b) = Fin (a + b)"
| "js_add PosInf NegInf = NaN"
| "js_add NegInf PosInf = NaN"
| "js_add PosInf y = PosInf"
| "js_add NegInf y = NegInf"
| "js_add (Fin a) y = y"

definition js_sub :: "jsnum \<Rightarrow> jsnum \<Rightarrow> jsnum" where
  "js_sub x y = js_add x (js_neg y)"

fun js_mul :: "jsnum \<Rightarrow> jsnum \<Rightarrow> jsnum" where
  "js_mul NaN y = NaN"
| "js_mul x NaN = NaN"
| "js_mul (Fin a) (Fin b) = Fin (a * b)"
| "js_mul (Fin a) PosInf = (if a = 0 then NaN else if a > 0 then PosInf else NegInf)"
| "js_mul (Fin a) NegInf = (if a = 0 then NaN else if a > 0 then NegInf else PosInf)"
| "js_mul PosInf (Fin b) = (if b = 0 then NaN else if b > 0 then PosInf else NegInf)"
| "js_mul NegInf (Fin b) = (if b = 0 then NaN else if b > 0 then NegInf else PosInf)"
| "js_mul PosInf PosInf = PosInf"
| "js_mul NegInf NegInf = PosInf"
| "js_mul PosInf NegInf = NegInf"
| "js_mul NegInf PosInf = NegInf"

fun js_div :: "jsnum \<Rightarrow> jsnum \<Rightarrow> jsnum" where
  "js_div NaN y = NaN"
| "js_div x NaN = NaN"
| "js_div (Fin a) (Fin b) =
     (if b = 0 then (if a = 0 then NaN else if a > 0 then PosInf else NegInf)
      else Fin (a / b))"
| "js_div (Fin a) PosInf = Fin 0"
| "js_div (Fin a) NegInf = Fin 0"
| "js_div PosInf (Fin b) = (if b \<ge> 0 then PosInf else NegInf)"
| "js_div NegInf (Fin b) = (if b \<ge> 0 then NegInf else PosInf)"
| "js_div x y = NaN"

text \<open>\<open>Math.max\<close> and the test \<open>a > b\<close>: a comparison with NaN is false.\<close>

fun js_max :: "jsnum \<Rightarrow> jsnum \<Rightarrow> jsnum" where
  "js_max NaN y = NaN"
| "js_max x NaN = NaN"
| "js_max PosInf y = PosInf"
| "js_max x PosInf = PosInf"
| "js_max NegInf y = y"
| "js_max x NegInf = x"
| "js_max (Fin a) (Fin b) = Fin (max a b)"

fun js_gt :: "jsnum \<Rightarrow> jsnum \<Rightarrow> bool" where
  "js_gt NaN y = False"
| "js_gt x NaN = False"
| "js_gt (Fin a) (Fin b) = (a > b)"
| "js_gt PosInf PosInf = False"
| "js_gt PosInf y = True"
| "js_gt x NegInf = (x \<noteq> NegInf)"
| "js_gt x y = False"

section \<open>The canvas 2D context\<close>

text \<open>
  \<open>drawCanvas\<close> talks to the browser only through calls on the 2D context. Each call is
  a command; what the compositor does is the sequence of commands it issues. A CSS filter
  string is the list of its functions, a font string its three parts. The arguments of
  \<open>translate\<close>, \<open>scale\<close> and \<open>drawImage\<close> come out of \<open>renderLayer\<close> and need not be finite.
\<close>

datatype FilterFn =
    BrightnessPct number | ContrastPct number | SaturatePct number | SepiaPct number
  | GrayscalePct number | BlurPx number | BrightnessFactor number

record Font =
  font_bold :: bool
  font_px :: number
  font_family :: string

datatype Cmd =
    Save
  | Restore
  | SetFillStyle string
  | SetStrokeStyle string
  | SetFont Font
  | SetTextAlign string
  | SetTextBaseline string
  | SetGlobalAlpha number
  | SetFilter "FilterFn list"
  | AppendFilter "FilterFn list"
  | SetShadowColor string
  | SetShadowBlur number
  | SetLineWidth number
  | Translate jsnum jsnum
  | Scale jsnum jsnum
  | FillRect number number number number
  | DrawImage HTMLImageElement jsnum jsnum "(jsnum \<times> jsnum) option"
  | FillText string number number
  | StrokeText string number number

section \<open>The frame compositor: drawCanvas (lines 641-724)\<close>

definition BASE_WIDTH :: number where
  "BASE_WIDTH = 1280"

text \<open>\<open>img.crop || { x: 0, y: 0, scale: 1 }\<close> and the same for the adjustments.\<close>

definition crop_or_default :: "ImageAsset \<Rightarrow> CropData" where
  "crop_or_default img =
     (case crop img of Some c \<Rightarrow> c | None \<Rightarrow> \<lparr>crop_x = 0, crop_y = 0, scale = 1\<rparr>)"

definition adjustments_or_default :: "ImageAsset \<Rightarrow> ImageAdjustments" where
  "adjustments_or_default img =
     (case adjustments img of Some a \<Rightarrow> a
      | None \<Rightarrow> \<lparr>brightness = 100, contrast = 100, saturation = 100, sepia = 0,
          grayscale = 0, blur = 0\<rparr>)"

text \<open>
  \<open>renderLayer(idx, opacity)\<close> (lines 651-665): nothing is drawn unless the clip's image
  element exists and is complete. The sizes \<open>rw\<close>, \<open>rh\<close>, the bias and the scales are
  quotients whose divisor can be zero.
\<close>

definition renderLayer :: "App \<Rightarrow> number \<Rightarrow> number \<Rightarrow> nat \<Rightarrow> number \<Rightarrow> Cmd list" where
  "renderLayer st w h idx layerOpacity =
     (let scaleRatio = w / BASE_WIDTH;
          img = images st ! idx;
          c = crop_or_default img;
          adj = adjustments_or_default img
      in case imageElementsRef st (img_id img) of
           None \<Rightarrow> []
         | Some el \<Rightarrow>
             if \<not> complete el then []
             else
               (let ia = js_div (Fin (el_width el)) (Fin (el_height el));
                    ca = js_div (Fin w) (Fin h);
                    rw = (if js_gt ia ca then js_mul (Fin h) ia else Fin w);
                    rh = (if js_gt ia ca then Fin h else js_div (Fin w) ia);
                    verticalBias =
                      (if js_gt rh (Fin h) then js_mul (js_sub rh (Fin h)) (Fin 0.25) else Fin 0);
                    lst = clipStartTime (images st) idx;
                    kb = js_div (Fin (max 0 (currentTime st - lst))) (Fin (duration img));
                    z = js_add (Fin 1) (js_mul kb (Fin 0.1));
                    fs = js_mul (Fin (scale c)) z;
                    bgScale = js_mul (js_max (js_div (Fin w) (Fin (el_width el)))
                                             (js_div (Fin h) (Fin (el_height el)))) (Fin 1.2)
                in [Save,
                    SetGlobalAlpha (max 0 (min 1 layerOpacity)),
                    SetFilter [BrightnessPct (brightness adj), ContrastPct (contrast adj),
                      SaturatePct (saturation adj), SepiaPct (or_default (sepia adj) 0),
                      GrayscalePct (or_default (grayscale adj) 0),
                      BlurPx (or_default (blur adj) 0)],
                    Translate (Fin (w / 2)) (Fin (h / 2)),
                    Save,
                    Scale bgScale bgScale,
                    AppendFilter [BlurPx 20, BrightnessFactor 0.5],
                    DrawImage el (Fin (- el_width el / 2)) (Fin (- el_height el / 2)) None,
                    Restore,
                    Translate (Fin (crop_x c * scaleRatio))
                      (js_add (Fin (crop_y c * scaleRatio)) verticalBias),
                    Scale fs fs,
                    SetShadowColor ''rgba(0,0,0,0.5)'',
                    SetShadowBlur 20,
                    DrawImage el (js_div (js_neg rw) (Fin 2)) (js_div (js_neg rh) (Fin 2))
                      (Some (rw, rh)),
                    Restore]))"

text \<open>
  The transition test and its progress (lines 666-668), for the active clip
  \<open>activeIndex\<close> that started at \<open>activeImageStartTime\<close>.
\<close>

definition timeLeft :: "App \<Rightarrow> nat \<Rightarrow> number \<Rightarrow> number" where
  "timeLeft st activeIndex activeImageStartTime =
     duration (images st ! activeIndex) - (currentTime st - activeImageStartTime)"

definition transitionWindow :: "App \<Rightarrow> nat \<Rightarrow> number" where
  "transitionWindow st activeIndex =
     min (transitionDuration st) (duration (images st ! activeIndex) / 2)"

definition isTransition :: "App \<Rightarrow> nat \<Rightarrow> number \<Rightarrow> bool" where
  "isTransition st activeIndex activeImageStartTime =
     (transitionEffect st \<noteq> TransNone
      \<and> timeLeft st activeIndex activeImageStartTime \<le> transitionWindow st activeIndex
      \<and> int activeIndex < int (length (images st)) - 1)"

definition transitionProgress :: "App \<Rightarrow> nat \<Rightarrow> number \<Rightarrow> number" where
  "transitionProgress st activeIndex activeImageStartTime =
     1 - (timeLeft st activeIndex activeImageStartTime / transitionWindow st activeIndex)"

text \<open>The calls of \<open>renderLayer\<close> made for the active clip: index and opacity, in order.\<close>

definition layerCalls :: "App \<Rightarrow> nat \<Rightarrow> number \<Rightarrow> (nat \<times> number) list" where
  "layerCalls st activeIndex activeImageStartTime =
     (if isTransition st activeIndex activeImageStartTime
      then [(activeIndex, 1),
            (activeIndex + 1, transitionProgress st activeIndex activeImageStartTime)]
      else [(activeIndex, 1)])"

text \<open>Text overlays (lines 670-702): progress, opacity, position and visible text.\<close>

definition overlayProgress :: "TextOverlay \<Rightarrow> number \<Rightarrow> number" where
  "overlayProgress ov relTime =
     (let animDuration = or_default (animationDuration ov) 1.5
      in min (max (relTime / animDuration) 0) 1)"

definition renderOpacity :: "TextOverlay \<Rightarrow> number \<Rightarrow> number" where
  "renderOpacity ov progress =
     (if animation ov = Fade then opacity ov * progress
      else if animation ov = SlideUp then opacity ov * progress
      else opacity ov)"

definition renderY :: "TextOverlay \<Rightarrow> number \<Rightarrow> number \<Rightarrow> number \<Rightarrow> number" where
  "renderY ov h scaleRatio progress =
     (if animation ov = Fade then ov_y ov * h
      else if animation ov = SlideUp then
        (let offset = 40 * scaleRatio;
             ease = 1 - (1 - progress) ^ 3
         in (ov_y ov * h) + offset - (offset * ease))
      else ov_y ov * h)"

definition charCount :: "TextOverlay \<Rightarrow> number \<Rightarrow> int" where
  "charCount ov progress = \<lfloor>real (length (ov_text ov)) * progress\<rfloor>"

text \<open>\<open>substring(0, n)\<close> treats a negative \<open>n\<close> as 0 and stops at the end of the string.\<close>

definition renderText :: "TextOverlay \<Rightarrow> number \<Rightarrow> string" where
  "renderText ov progress =
     (if animation ov = Fade then ov_text ov
      else if animation ov = SlideUp then ov_text ov
      else if animation ov = Typewriter then take (nat (charCount ov progress)) (ov_text ov)
      else ov_text ov)"

definition drawOverlay :: "App \<Rightarrow> number \<Rightarrow> number \<Rightarrow> number \<Rightarrow> TextOverlay \<Rightarrow> Cmd list" where
  "drawOverlay st w h activeImageStartTime ov =
     (let scaleRatio = w / BASE_WIDTH;
          progress = overlayProgress ov (relativeTime st activeImageStartTime)
      in [Save,
          SetGlobalAlpha (renderOpacity ov progress),
          SetFillStyle (color ov),
          SetFont \<lparr>font_bold = True, font_px = fontSize ov * scaleRatio,
            font_family = fontFamily ov\<rparr>,
          SetTextAlign ''center'',
          SetTextBaseline ''middle'',
          SetShadowColor ''rgba(0,0,0,0.8)'',
          SetShadowBlur 4,
          FillText (renderText ov progress) (ov_x ov * w) (renderY ov h scaleRatio progress),
          Restore])"

text \<open>The lyric shown (line 708): the first segment in list order that matches.\<close>

definition currentLyric :: "App \<Rightarrow> Subtitle option" where
  "currentLyric st =
     find (\<lambda>l. currentTime st \<ge> startTime l \<and> currentTime st \<le> endTime l) (lyrics st)"

definition drawLyrics :: "App \<Rightarrow> number \<Rightarrow> number \<Rightarrow> Cmd list" where
  "drawLyrics st w h =
     (let scaleRatio = w / BASE_WIDTH
      in if length (lyrics st) > 0 then
           (case currentLyric st of
              None \<Rightarrow> []
            | Some l \<Rightarrow>
                [Save,
                 SetFont \<lparr>font_bold = True, font_px = 42 * scaleRatio, font_family = ''Inter''\<rparr>,
                 SetTextAlign ''center'',
                 SetTextBaseline ''bottom'',
                 SetFillStyle ''white'',
                 SetShadowColor ''rgba(0,0,0,0.8)'',
                 SetShadowBlur 4,
                 SetStrokeStyle ''black'',
                 SetLineWidth (4 * scaleRatio),
                 StrokeText (sub_text l) (w / 2) (h - (50 * scaleRatio)),
                 FillText (sub_text l) (w / 2) (h - (50 * scaleRatio)),
                 Restore])
         else [])"

text \<open>The clip part of a frame (lines 646-704).\<close>

definition drawClips :: "App \<Rightarrow> number \<Rightarrow> number \<Rightarrow> Cmd list" where
  "drawClips st w h =
     (if length (images st) > 0 then
        (case drawCanvas_loop (currentTime st) (images st) 0 0 of
           None \<Rightarrow> []
         | Some (activeIndex, activeImageStartTime) \<Rightarrow>
             concat (map (\<lambda>(idx, layerOpacity). renderLayer st w h idx layerOpacity)
                       (layerCalls st activeIndex activeImageStartTime))
             @ concat (map (drawOverlay st w h activeImageStartTime)
                         (textOverlays (images st ! activeIndex))))
      else [])"

text \<open>
  \<open>drawCanvas\<close>: no canvas or no context, nothing is drawn; an empty project gets the
  placeholder and returns before the clips and the lyrics.
\<close>

definition drawCanvas :: "App \<Rightarrow> Cmd list" where
  "drawCanvas st =
     (case canvasRef st of
        None \<Rightarrow> []
      | Some canvas \<Rightarrow>
          (let w = width canvas; h = height canvas; scaleRatio = w / BASE_WIDTH
           in [SetFillStyle ''#000'', FillRect 0 0 w h]
              @ (if length (images st) = 0 \<and> audioAsset st = None then
                   [SetFillStyle ''#1e1e24'', FillRect 0 0 w h,
                    SetFillStyle ''#4b5563'',
                    SetFont \<lparr>font_bold = False, font_px = 30 * scaleRatio,
                      font_family = ''Inter''\<rparr>,
                    SetTextAlign ''center'',
                    FillText ''LyricalFlow Studio'' (w / 2) (h / 2)]
                 else drawClips st w h @ drawLyrics st w h)))"

section \<open>What the context paints\<close>

text \<open>
  The drawing state of a 2D context, its stack of saved states and the primitives painted
  so far. Setters are plain assignments (the values are ones the browser accepts),
  \<open>save\<close> pushes the drawing state, \<open>restore\<close> pops it and does nothing on an empty
  stack. \<open>translate\<close>, \<open>scale\<close> and \<open>drawImage\<close> return at once when an argument is not
  finite. \<open>drawImage\<close> then throws on a broken element, and paints nothing for an element
  of width or height 0. Once a call has thrown, the exception leaves \<open>drawCanvas\<close>: the
  commands after it are not run, and the context keeps the state it had at the throw.
  A painted primitive is kept with the part of the drawing state that it reads: a
  rectangle does not read the font, an image does not read the fill style.
\<close>

datatype Xform = XTranslate number number | XScale number number

record DrawState =
  fillStyle :: string
  strokeStyle :: string
  font :: Font
  textAlign :: string
  textBaseline :: string
  globalAlpha :: number
  filterCss :: "FilterFn list"
  shadowColor :: string
  shadowBlur :: number
  lineWidth :: number
  transform :: "Xform list"

record Ctx2D =
  cur :: DrawState
  saved :: "DrawState list"
  painted :: "(Cmd \<times> DrawState) list"
  thrown :: bool

definition defaultState :: DrawState where
  "defaultState = \<lparr>fillStyle = ''#000000'', strokeStyle = ''#000000'',
     font = \<lparr>font_bold = False, font_px = 10, font_family = ''sans-serif''\<rparr>,
     textAlign = ''start'', textBaseline = ''alphabetic'', globalAlpha = 1, filterCss = [],
     shadowColor = ''rgba(0, 0, 0, 0)'', shadowBlur = 0, lineWidth = 1, transform = []\<rparr>"

definition freshContext :: Ctx2D where
  "freshContext = \<lparr>cur = defaultState, saved = [], painted = [], thrown = False\<rparr>"

definition noText :: "DrawState \<Rightarrow> DrawState" where
  "noText d = d\<lparr>font := font defaultState, textAlign := textAlign defaultState,
     textBaseline := textBaseline defaultState\<rparr>"

definition noStroke :: "DrawState \<Rightarrow> DrawState" where
  "noStroke d = d\<lparr>strokeStyle := strokeStyle defaultState, lineWidth := lineWidth defaultState\<rparr>"

definition noFill :: "DrawState \<Rightarrow> DrawState" where
  "noFill d = d\<lparr>fillStyle := fillStyle defaultState\<rparr>"

definition paintWith :: "Cmd \<Rightarrow> DrawState \<Rightarrow> Ctx2D \<Rightarrow> Ctx2D" where
  "paintWith c d ctx = ctx\<lparr>painted := painted ctx @ [(c, d)]\<rparr>"

definition finiteArgs :: "jsnum \<Rightarrow> jsnum \<Rightarrow> (jsnum \<times> jsnum) option \<Rightarrow> bool" where
  "finiteArgs x y sz =
     (isFin x \<and> isFin y \<and> (case sz of None \<Rightarrow> True | Some (dw, dh) \<Rightarrow> isFin dw \<and> isFin dh))"

definition translated :: "jsnum \<Rightarrow> jsnum \<Rightarrow> Xform list" where
  "translated x y = (if isFin x \<and> isFin y then [XTranslate (fin x) (fin y)] else [])"

definition scaled :: "jsnum \<Rightarrow> jsnum \<Rightarrow> Xform list" where
  "scaled x y = (if isFin x \<and> isFin y then [XScale (fin x) (fin y)] else [])"

datatype ImageOutcome = Ignored | Throws | Paints

definition drawImageOutcome ::
  "HTMLImageElement \<Rightarrow> jsnum \<Rightarrow> jsnum \<Rightarrow> (jsnum \<times> jsnum) option \<Rightarrow> ImageOutcome" where
  "drawImageOutcome el x y sz =
     (if \<not> finiteArgs x y sz then Ignored
      else if broken el then Throws
      else if el_width el = 0 \<or> el_height el = 0 then Ignored
      else Paints)"

fun call :: "Cmd \<Rightarrow> Ctx2D \<Rightarrow> Ctx2D" where
  "call Save ctx = ctx\<lparr>saved := cur ctx # saved ctx\<rparr>"
| "call Restore ctx =
     (case saved ctx of [] \<Rightarrow> ctx | d # ds \<Rightarrow> ctx\<lparr>cur := d, saved := ds\<rparr>)"
| "call (SetFillStyle v) ctx = ctx\<lparr>cur := (cur ctx)\<lparr>fillStyle := v\<rparr>\<rparr>"
| "call (SetStrokeStyle v) ctx = ctx\<lparr>cur := (cur ctx)\<lparr>strokeStyle := v\<rparr>\<rparr>"
| "call (SetFont v) ctx = ctx\<lparr>cur := (cur ctx)\<lparr>font := v\<rparr>\<rparr>"
| "call (SetTextAlign v) ctx = ctx\<lparr>cur := (cur ctx)\<lparr>textAlign := v\<rparr>\<rparr>"
| "call (SetTextBaseline v) ctx = ctx\<lparr>cur := (cur ctx)\<lparr>textBaseline := v\<rparr>\<rparr>"
| "call (SetGlobalAlpha v) ctx = ctx\<lparr>cur := (cur ctx)\<lparr>globalAlpha := v\<rparr>\<rparr>"
| "call (SetFilter v) ctx = ctx\<lparr>cur := (cur ctx)\<lparr>filterCss := v\<rparr>\<rparr>"
| "call (AppendFilter v) ctx = ctx\<lparr>cur := (cur ctx)\<lparr>filterCss := filterCss (cur ctx) @ v\<rparr>\<rparr>"
| "call (SetShadowColor v) ctx = ctx\<lparr>cur := (cur ctx)\<lparr>shadowColor := v\<rparr>\<rparr>"
| "call (SetShadowBlur v) ctx = ctx\<lparr>cur := (cur ctx)\<lparr>shadowBlur := v\<rparr>\<rparr>"
| "call (SetLineWidth v) ctx = ctx\<lparr>cur := (cur ctx)\<lparr>lineWidth := v\<rparr>\<rparr>"
| "call (Translate x y) ctx =
     ctx\<lparr>cur := (cur ctx)\<lparr>transform := transform (cur ctx) @ translated x y\<rparr>\<rparr>"
| "call (Scale x y) ctx =
     ctx\<lparr>cur := (cur ctx)\<lparr>transform := transform (cur ctx) @ scaled x y\<rparr>\<rparr>"
| "call (FillRect x y w h) ctx = paintWith (FillRect x y w h) (noText (noStroke (cur ctx))) ctx"
| "call (DrawImage el x y sz) ctx =
     (case drawImageOutcome el x y sz of
        Ignored \<Rightarrow> ctx
      | Throws \<Rightarrow> ctx\<lparr>thrown := True\<rparr>
      | Paints \<Rightarrow> paintWith (DrawImage el x y sz) (noFill (noText (noStroke (cur ctx)))) ctx)"
| "call (FillText txt x y) ctx = paintWith (FillText txt x y) (noStroke (cur ctx)) ctx"
| "call (StrokeText txt x y) ctx = paintWith (StrokeText txt x y) (noFill (cur ctx)) ctx"

definition exec :: "Cmd \<Rightarrow> Ctx2D \<Rightarrow> Ctx2D" where
  "exec c ctx = (if thrown ctx then ctx else call c ctx)"

definition run :: "Cmd list \<Rightarrow> Ctx2D \<Rightarrow> Ctx2D" where
  "run cmds ctx = fold exec cmds ctx"

text \<open>
  One tick of the render loop: \<open>drawCanvas\<close> runs on the context as the previous tick
  left it. \<open>frame\<close> is what this tick painted, and \<open>returns\<close> says that no call in it throws.
\<close>

definition tick :: "App \<Rightarrow> Ctx2D \<Rightarrow> Ctx2D" where
  "tick st ctx = run (drawCanvas st) (ctx\<lparr>painted := [], thrown := False\<rparr>)"

definition frame :: "App \<Rightarrow> Ctx2D \<Rightarrow> (Cmd \<times> DrawState) list" where
  "frame st ctx = painted (tick st ctx)"

definition returns :: "App \<Rightarrow> bool" where
  "returns st = (\<not> thrown (tick st freshContext))"

text \<open>
  What \<open>drawCanvas\<close> reads: the canvas, the clips with their overlays, whether a main
  audio is loaded, the time, the transition settings, the lyrics and the image elements.
\<close>

definition reads ::
  "App \<Rightarrow> Canvas option \<times> ImageAsset list \<times> bool \<times> number \<times> TransitionEffect \<times> number
     \<times> Subtitle list \<times> (string \<rightharpoonup> HTMLImageElement)" where
  "reads st = (canvasRef st, images st, audioAsset st = None, currentTime st,
     transitionEffect st, transitionDuration st, lyrics st, imageElementsRef st)"



text \<open>
  Devices for the proofs about \<open>drawCanvas\<close>. \<open>persistent d\<close> forgets the three attributes
  that \<open>drawCanvas\<close> assigns outside a \<open>save\<close>/\<open>restore\<close> pair; \<open>blank d\<close> is a context that
  holds nothing but the rest of \<open>d\<close>. A command sequence is self-contained when, run on a
  context, it throws and paints as it does from \<open>blank\<close>, and, unless it throws, leaves the
  drawing state and the stack as it found them.
\<close>

definition persistent :: "DrawState \<Rightarrow> DrawState" where
  "persistent d = d\<lparr>fillStyle := fillStyle defaultState, font := font defaultState,
     textAlign := textAlign defaultState\<rparr>"

definition blank :: "DrawState \<Rightarrow> Ctx2D" where
  "blank d = \<lparr>cur = persistent d, saved = [], painted = [], thrown = False\<rparr>"

definition selfContained :: "Cmd list \<Rightarrow> bool" where
  "selfContained cmds =
     (\<forall>ctx. thrown ctx \<or>
        (thrown (run cmds ctx) = thrown (run cmds (blank (cur ctx)))
         \<and> painted (run cmds ctx) = painted ctx @ painted (run cmds (blank (cur ctx)))
         \<and> (thrown (run cmds ctx) \<or>
              (cur (run cmds ctx) = cur ctx \<and> saved (run cmds ctx) = saved ctx))))"

section \<open>Inserting and reordering clips\<close>

text \<open>
  \<open>processFiles\<close> (lines 470-488). The ids drawn from \<open>Math.random\<close> and the object URLs
  are given by the position of the file among the image files. An image element that was
  just created is not complete.
\<close>

fun digits :: "nat \<Rightarrow> string" where
  "digits n = (if n < 10 then [char_of (48 + n)] else digits (n div 10) @ [char_of (48 + n mod 10)])"

definition isImageFile :: "File \<Rightarrow> bool" where
  "isImageFile f = (take 6 (file_type f) = ''image/'')"

definition newImage :: "number \<Rightarrow> string \<Rightarrow> string \<Rightarrow> File \<Rightarrow> ImageAsset" where
  "newImage nextDuration ident url file =
     \<lparr>img_id = ident, img_url = url, img_file = file,
      crop = Some \<lparr>crop_x = 0, crop_y = 0, scale = 1\<rparr>,
      adjustments = Some \<lparr>brightness = 100, contrast = 100, saturation = 100, sepia = 0,
        grayscale = 0, blur = 0\<rparr>,
      duration = nextDuration, textOverlays = []\<rparr>"

definition nextDuration :: "App \<Rightarrow> File list \<Rightarrow> number" where
  "nextDuration st imageFiles =
     (case audioAsset st of
        None \<Rightarrow> 5
      | Some a \<Rightarrow>
          if length (images st) + length imageFiles > 0
          then audio_duration a / real (length (images st) + length imageFiles)
          else 5)"

definition registerElement ::
  "ImageAsset \<Rightarrow> (string \<rightharpoonup> HTMLImageElement) \<Rightarrow> (string \<rightharpoonup> HTMLImageElement)" where
  "registerElement img m =
     m(img_id img \<mapsto> \<lparr>el_src = img_url img, el_width = 0, el_height = 0, complete = False,
       broken = False\<rparr>)"

definition processFiles :: "(nat \<Rightarrow> string) \<Rightarrow> (nat \<Rightarrow> string) \<Rightarrow> File list \<Rightarrow> App \<Rightarrow> App" where
  "processFiles randomId createObjectURL files st =
     (let imageFiles = filter isImageFile files
      in if length imageFiles > 0 then
           (let newImages = map (\<lambda>(k, file).
                   newImage (nextDuration st imageFiles) (randomId k) (createObjectURL k) file)
                 (enumerate 0 imageFiles)
            in addToast (''Added '' @ digits (length imageFiles) @ '' images'') Success
                 (st\<lparr>images := images st @ newImages,
                     imageElementsRef := fold registerElement newImages (imageElementsRef st)\<rparr>))
         else st)"

text \<open>
  \<open>handleTimelineReorder\<close> (lines 601-607). \<open>splice(fromIndex, 1)\<close> removes one element
  when \<open>fromIndex\<close> is inside the array; \<open>splice(toIndex, 0, x)\<close> inserts, and an index past
  the end appends. With \<open>fromIndex\<close> outside the array nothing is removed and \<open>undefined\<close> is
  inserted: the result is no longer a list of clips, which is \<open>None\<close> here. The timeline
  only passes the indices of clips it shows.
\<close>

definition splice_remove :: "nat \<Rightarrow> 'a list \<Rightarrow> 'a option \<times> 'a list" where
  "splice_remove i xs =
     (if i < length xs then (Some (xs ! i), take i xs @ drop (Suc i) xs) else (None, xs))"

definition splice_insert :: "nat \<Rightarrow> 'a \<Rightarrow> 'a list \<Rightarrow> 'a list" where
  "splice_insert i x xs = take i xs @ [x] @ drop i xs"

definition handleTimelineReorder :: "nat \<Rightarrow> nat \<Rightarrow> App \<Rightarrow> App option" where
  "handleTimelineReorder fromIndex toIndex st =
     (if fromIndex = toIndex then Some st
      else case splice_remove fromIndex (images st) of
             (Some movedItem, updatedImages) \<Rightarrow>
               Some (st\<lparr>images := splice_insert toIndex movedItem updatedImages\<rparr>)
           | (None, updatedImages) \<Rightarrow> None)"

text \<open>\<open>moveSelectedImageOrder\<close> (lines 550-564): the selected clip swaps with a neighbour.\<close>

datatype Direction = Forward | Backward

fun findIndex :: "('a \<Rightarrow> bool) \<Rightarrow> 'a list \<Rightarrow> nat option" where
  "findIndex P [] = None"
| "findIndex P (x # xs) = (if P x then Some 0 else map_option Suc (findIndex P xs))"

definition swapWith :: "nat \<Rightarrow> nat \<Rightarrow> 'a list \<Rightarrow> 'a list" where
  "swapWith i j xs = (xs[i := xs ! j])[j := xs ! i]"

definition moveSelectedImageOrder :: "Direction \<Rightarrow> App \<Rightarrow> App" where
  "moveSelectedImageOrder direction st =
     (case selectedImageId st of
        None \<Rightarrow> st
      | Some sid \<Rightarrow>
          if sid = [] then st
          else (case findIndex (\<lambda>img. img_id img = sid) (images st) of
                  None \<Rightarrow> st
                | Some index \<Rightarrow>
                    if direction = Backward \<and> index > 0
                    then st\<lparr>images := swapWith index (index - 1) (images st)\<rparr>
                    else if direction = Forward \<and> int index < int (length (images st)) - 1
                    then st\<lparr>images := swapWith index (index + 1) (images st)\<rparr>
                    else st))"

section \<open>Export: handleExport (lines 609-630)\<close>

text \<open>
  The browser calls of the setup that can throw, in the order the code makes them, and
  what the browser supports. \<open>throwsAt\<close> names the call that throws, if one does.
\<close>

datatype SetupStep = CaptureStream | CombineStreams | CreateRecorder | StartRecorder

record Browser =
  throwsAt :: "SetupStep option"
  vp9Supported :: bool
  audioCaptureStream :: bool

definition bitrate :: "App \<Rightarrow> nat" where
  "bitrate st =
     (if resolution st = R1080p then (if frameRate st = Fps60 then 8000000 else 5000000)
      else (if frameRate st = Fps60 then 3500000 else 2500000))"

definition pauseElement :: "HTMLAudioElement \<Rightarrow> HTMLAudioElement" where
  "pauseElement a = a\<lparr>paused := True\<rparr>"

definition playElement :: "HTMLAudioElement \<Rightarrow> HTMLAudioElement" where
  "playElement a = a\<lparr>paused := False\<rparr>"

definition rewindElement :: "HTMLAudioElement \<Rightarrow> HTMLAudioElement" where
  "rewindElement a = a\<lparr>el_currentTime := 0\<rparr>"

text \<open>The \<open>catch\<close> block (line 629).\<close>

definition exportFailed :: "App \<Rightarrow> App" where
  "exportFailed st =
     (addToast ''Export failed.'' Error st)
       \<lparr>appState := READY, speakersGainNodeRef := map_option (\<lambda>g. 1) (speakersGainNodeRef st)\<rparr>"

text \<open>Before the \<open>try\<close> (lines 611-612).\<close>

definition exportBegin :: "App \<Rightarrow> App" where
  "exportBegin st =
     st\<lparr>appState := EXPORTING, isPlaying := False,
        audioRef := map_option pauseElement (audioRef st),
        bgAudioRef := map_option pauseElement (bgAudioRef st),
        speakersGainNodeRef := map_option (\<lambda>g. 0) (speakersGainNodeRef st)\<rparr>"

definition newRecorder :: "Browser \<Rightarrow> App \<Rightarrow> MediaRecorder" where
  "newRecorder b st =
     \<lparr>rec_state = Inactive,
      mimeType = (if vp9Supported b then ''video/webm;codecs=vp9'' else ''video/webm''),
      videoBitsPerSecond = (if vp9Supported b then Some (bitrate st) else None),
      audioTracks = (destNodeRef st \<or> audioCaptureStream b),
      chunks = []\<rparr>"

definition startRecorder :: "MediaRecorder \<Rightarrow> MediaRecorder" where
  "startRecorder r = r\<lparr>rec_state := Recording\<rparr>"

text \<open>
  The body of the \<open>try\<close> (lines 615-628), run on the state left by the lines before it.
  An exception leaves the state as it is at the throwing call and enters the \<open>catch\<close>.
  Without a destination node the code reads \<open>captureStream\<close> off \<open>audioRef.current\<close>, which
  throws when the element is not mounted.
\<close>

definition exportSetup :: "Browser \<Rightarrow> App \<Rightarrow> App" where
  "exportSetup b st =
     (if throwsAt b = Some CaptureStream then exportFailed st
      else if throwsAt b = Some CombineStreams \<or> (\<not> destNodeRef st \<and> audioRef st = None)
      then exportFailed st
      else if throwsAt b = Some CreateRecorder then exportFailed st
      else
        (let r = newRecorder b st;
             st1 = st\<lparr>recorder := Some r, currentTime := 0\<rparr>
         in if audioAsset st1 \<noteq> None \<and> audioRef st1 \<noteq> None then
              (let st2 = st1\<lparr>audioRef := map_option rewindElement (audioRef st1),
                              bgAudioRef := map_option rewindElement (bgAudioRef st1)\<rparr>
               in if throwsAt b = Some StartRecorder then exportFailed st2
                  else st2\<lparr>recorder := Some (startRecorder r),
                          audioRef := map_option (\<lambda>a. (playElement a)\<lparr>onended_set := True\<rparr>)
                                        (audioRef st2),
                          bgAudioRef := map_option playElement (bgAudioRef st2),
                          isPlaying := True\<rparr>)
            else
              (if throwsAt b = Some StartRecorder then exportFailed st1
               else st1\<lparr>recorder := Some (startRecorder r), isPlaying := True,
                       timers := timers st1 @ [totalDuration st * 1000]\<rparr>)))"

definition handleExport :: "Browser \<Rightarrow> App \<Rightarrow> App" where
  "handleExport b st =
     (if canvasRef st = None \<or> (length (images st) = 0 \<and> audioAsset st = None) then st
      else exportSetup b (exportBegin st))"

text \<open>
  What happens later. The recorder hands over a chunk (\<open>ondataavailable\<close>, line 624); the
  export timer fires (line 628); the main audio ends (line 627, when the handler is
  installed); the recorder, once stopped, calls \<open>onstop\<close> (line 625). \<open>recorder.stop()\<close>
  makes a recording recorder inactive and leaves an inactive one as it is.
\<close>

definition stopRecorder :: "MediaRecorder \<Rightarrow> MediaRecorder" where
  "stopRecorder r = r\<lparr>rec_state := Inactive\<rparr>"

definition ondataavailable :: "nat \<Rightarrow> App \<Rightarrow> App" where
  "ondataavailable n st =
     (case recorder st of
        None \<Rightarrow> st
      | Some r \<Rightarrow> if n > 0 then st\<lparr>recorder := Some (r\<lparr>chunks := chunks r @ [n]\<rparr>)\<rparr> else st)"

definition timerFires :: "App \<Rightarrow> App" where
  "timerFires st =
     (case timers st of
        [] \<Rightarrow> st
      | d # ds \<Rightarrow>
          st\<lparr>timers := ds, recorder := map_option stopRecorder (recorder st),
             isPlaying := False\<rparr>)"

definition onended :: "App \<Rightarrow> App" where
  "onended st =
     (case audioRef st of
        None \<Rightarrow> st
      | Some a \<Rightarrow>
          if onended_set a
          then st\<lparr>recorder := map_option stopRecorder (recorder st),
                  audioRef := Some (a\<lparr>onended_set := False\<rparr>),
                  bgAudioRef := map_option pauseElement (bgAudioRef st),
                  isPlaying := False\<rparr>
          else st)"

definition onstop :: "App \<Rightarrow> App" where
  "onstop st =
     (case recorder st of
        None \<Rightarrow> st
      | Some r \<Rightarrow>
          (addToast ''Exported!'' Success st)
            \<lparr>downloads := downloads st @ [\<lparr>download_name = ''lyricalflow.webm'',
                                          blob_parts = chunks r\<rparr>],
             appState := READY,
             speakersGainNodeRef := map_option (\<lambda>g. 1) (speakersGainNodeRef st)\<rparr>)"

text \<open>Concrete assets used in the examples below.\<close>

definition mkFile :: "string \<Rightarrow> string \<Rightarrow> File" where
  "mkFile n t = \<lparr>file_name = n, file_type = t\<rparr>"

definition mkAudio :: "number \<Rightarrow> AudioAsset" where
  "mkAudio d = \<lparr>audio_url = ''blob:a'', audio_file = mkFile ''song.mp3'' ''audio/mpeg'',
     audio_duration = d\<rparr>"

definition mkClip :: "string \<Rightarrow> number \<Rightarrow> TextOverlay list \<Rightarrow> ImageAsset" where
  "mkClip i d ovs = \<lparr>img_id = i, img_url = ''blob:i'', img_file = mkFile ''pic.png'' ''image/png'',
     crop = Some \<lparr>crop_x = 0, crop_y = 0, scale = 1\<rparr>,
     adjustments = Some \<lparr>brightness = 100, contrast = 100, saturation = 100, sepia = 0,
       grayscale = 0, blur = 0\<rparr>,
     duration = d, textOverlays = ovs\<rparr>"

text \<open>
  The component right after mounting: every \<open>useState\<close> at its initial value, the canvas
  and the two audio elements mounted, no audio graph yet.
\<close>

definition initialApp :: App where
  "initialApp = \<lparr>appState = IDLE, audioAsset = None, bgAudioAsset = None, lyrics = [],
     images = [], isPlaying = False, currentTime = 0, toasts = [], selectedImageId = None,
     transitionEffect = TransNone, transitionDuration = 1, resolution = R720p,
     frameRate = Fps30, canvasRef = Some \<lparr>width = 1280, height = 720\<rparr>,
     imageElementsRef = Map.empty,
     audioRef = Some \<lparr>paused = True, el_currentTime = 0, onended_set = False\<rparr>,
     bgAudioRef = Some \<lparr>paused = True, el_currentTime = 0, onended_set = False\<rparr>,
     destNodeRef = False, speakersGainNodeRef = None, recorder = None, timers = [],
     downloads = []\<rparr>"

text \<open>
  Scenario A of the specification: clips of 4 and 6 seconds, no audio, a fade of 1 second,
  at time \<open>t\<close>. Scenario B: one subtitle from 2 to 4 seconds over a loaded main audio.
\<close>

definition scenarioA :: "number \<Rightarrow> App" where
  "scenarioA t = initialApp\<lparr>images := [mkClip ''a'' 4 [], mkClip ''b'' 6 []],
     transitionEffect := TransFade, transitionDuration := 1, currentTime := t\<rparr>"



text \<open>A browser in which every call of the export setup succeeds.\<close>

definition workingBrowser :: Browser where
  "workingBrowser = \<lparr>throwsAt = None, vp9Supported = True, audioCaptureStream = True\<rparr>"

text \<open>
  An image element that has loaded, one whose file could not be decoded, and a clip with
  the typewriter overlay. The last overlay has an animation duration of 0.
\<close>

definition loadedElement :: HTMLImageElement where
  "loadedElement = \<lparr>el_src = ''blob:i'', el_width = 1920, el_height = 1080, complete = True,
     broken = False\<rparr>"

definition brokenElement :: HTMLImageElement where
  "brokenElement = \<lparr>el_src = ''blob:i'', el_width = 0, el_height = 0, complete = True,
     broken = True\<rparr>"



text \<open>
  Scenario A with one image element registered for both clips.
\<close>

definition scenarioA_with :: "HTMLImageElement \<Rightarrow> number \<Rightarrow> App" where
  "scenarioA_with el t = (scenarioA t)\<lparr>imageElementsRef := [''a'' \<mapsto> el, ''b'' \<mapsto> el]\<rparr>"

section \<open>Properties\<close>

subsection \<open>Total duration\<close>

lemma foldl_duration_shift:
  "foldl (\<lambda>acc img. acc + duration img) a xs = a + foldl (\<lambda>acc img. acc + duration img) 0 xs"
proof (induction xs arbitrary: a)
  case Nil
  show ?case by simp
next
  case (Cons x xs)
  have "foldl (\<lambda>acc img. acc + duration img) (a + duration x) xs
        = (a + duration x) + foldl (\<lambda>acc img. acc + duration img) 0 xs"
    by (rule Cons.IH)
  moreover have "foldl (\<lambda>acc img. acc + duration img) (0 + duration x) xs
        = (0 + duration x) + foldl (\<lambda>acc img. acc + duration img) 0 xs"
    by (rule Cons.IH)
  ultimately show ?case by simp
qed

lemma totalImageDuration_Nil: "totalImageDuration [] = 0"
  by (simp add: totalImageDuration_def)

lemma totalImageDuration_Cons:
  "totalImageDuration (x # xs) = duration x + totalImageDuration xs"
  unfolding totalImageDuration_def
  using foldl_duration_shift [of "duration x" xs] by simp

lemma totalImageDuration_append:
  "totalImageDuration (xs @ ys) = totalImageDuration xs + totalImageDuration ys"
  by (induction xs) (simp_all add: totalImageDuration_Nil totalImageDuration_Cons)

lemma totalImageDuration_sum_list:
  "totalImageDuration xs = sum_list (map duration xs)"
  by (induction xs) (simp_all add: totalImageDuration_Nil totalImageDuration_Cons)

text \<open>
  C1 (as stated, refuted). The claim says the 10-second floor applies only when both the
  main audio duration and the clip-duration sum are zero, so that with main audio and no
  clips the total duration is the audio duration. With a 3-second main audio and no clips
  the code yields 10, not 3: the floor is applied to the clip sum alone, before the maximum.
\<close>

theorem totalDuration_audio_no_clips_counterexample:
  "totalDuration (initialApp\<lparr>audioAsset := Some (mkAudio 3)\<rparr>) = 10
   \<and> images (initialApp\<lparr>audioAsset := Some (mkAudio 3)\<rparr>) = []
   \<and> mainAudioDuration (audioAsset (initialApp\<lparr>audioAsset := Some (mkAudio 3)\<rparr>)) = 3
   \<and> totalDuration (initialApp\<lparr>audioAsset := Some (mkAudio 3)\<rparr>)
       \<noteq> mainAudioDuration (audioAsset (initialApp\<lparr>audioAsset := Some (mkAudio 3)\<rparr>))"
  by (simp add: totalDuration_def mainAudioDuration_def or_default_def
      totalImageDuration_def mkAudio_def initialApp_def)

text \<open>
  C1 (amended). The total duration is the maximum of the main audio duration (0 when no
  audio is loaded) and the clip-duration sum, where a clip-duration sum of zero is replaced
  by 10 seconds before the maximum is taken. So it equals max(audio, sum) whenever the sum
  is non-zero, and max(audio, 10) when the sum is zero, whether or not audio is present.
\<close>

theorem totalDuration_amended:
  "totalDuration st =
     (if totalImageDuration (images st) = 0 then max (mainAudioDuration (audioAsset st)) 10
      else max (mainAudioDuration (audioAsset st)) (totalImageDuration (images st)))"
  by (simp add: totalDuration_def or_default_def)

subsection \<open>Clock resolution\<close>

lemma clipStartTime_total: "clipStartTime imgs i = totalImageDuration (take i imgs)"
  by (simp add: clipStartTime_def totalImageDuration_def)

lemma clipStartTime_0: "clipStartTime imgs 0 = 0"
  by (simp add: clipStartTime_total totalImageDuration_Nil)

lemma clipStartTime_Suc_Cons:
  "clipStartTime (x # xs) (Suc k) = duration x + clipStartTime xs k"
  by (simp add: clipStartTime_total totalImageDuration_Cons)

lemma getActive_loop_eq:
  "getActiveImageIndex_loop t xs i acc = map_option fst (drawCanvas_loop t xs i acc)"
  by (induction xs arbitrary: i acc) (simp_all add: Let_def)

lemma drawCanvas_loop_Some:
  "drawCanvas_loop t xs i acc = Some (j, s) \<Longrightarrow>
     \<exists>k<length xs. j = i + k \<and> s = acc + clipStartTime xs k
       \<and> s \<le> t \<and> t < s + duration (xs ! k)
       \<and> (\<forall>k'<k. \<not> (acc + clipStartTime xs k' \<le> t
                       \<and> t < acc + clipStartTime xs k' + duration (xs ! k')))"
proof (induction xs arbitrary: i acc)
  case Nil
  then show ?case by simp
next
  case (Cons x xs)
  show ?case
  proof (cases "t \<ge> acc \<and> t < acc + duration x")
    case True
    with Cons.prems have "j = i" "s = acc" by (simp_all add: Let_def)
    with True show ?thesis
      by (intro exI [of _ 0]) (simp add: clipStartTime_0)
  next
    case False
    with Cons.prems have "drawCanvas_loop t xs (Suc i) (acc + duration x) = Some (j, s)"
      by (simp add: Let_def)
    from Cons.IH [OF this] obtain k where k: "k < length xs" "j = Suc i + k"
      "s = acc + duration x + clipStartTime xs k" "s \<le> t" "t < s + duration (xs ! k)"
      "\<forall>k'<k. \<not> (acc + duration x + clipStartTime xs k' \<le> t
                 \<and> t < acc + duration x + clipStartTime xs k' + duration (xs ! k'))"
      by blast
    have "\<forall>k'<Suc k. \<not> (acc + clipStartTime (x # xs) k' \<le> t
                 \<and> t < acc + clipStartTime (x # xs) k' + duration ((x # xs) ! k'))"
    proof (intro allI impI)
      fix k' assume "k' < Suc k"
      show "\<not> (acc + clipStartTime (x # xs) k' \<le> t
                 \<and> t < acc + clipStartTime (x # xs) k' + duration ((x # xs) ! k'))"
      proof (cases k')
        case 0
        with False show ?thesis by (simp add: clipStartTime_0)
      next
        case (Suc m)
        with \<open>k' < Suc k\<close> have "m < k" by simp
        with k(6) Suc show ?thesis
          by (simp add: clipStartTime_Suc_Cons add.assoc)
      qed
    qed
    with k show ?thesis
      by (intro exI [of _ "Suc k"]) (simp add: clipStartTime_Suc_Cons add.assoc)
  qed
qed

lemma drawCanvas_loop_None_past:
  "drawCanvas_loop t xs i acc = None \<Longrightarrow> acc \<le> t \<Longrightarrow> acc + totalImageDuration xs \<le> t"
proof (induction xs arbitrary: i acc)
  case Nil
  then show ?case by (simp add: totalImageDuration_Nil)
next
  case (Cons x xs)
  from Cons.prems(1) have nx: "\<not> (t \<ge> acc \<and> t < acc + duration x)"
    and rest: "drawCanvas_loop t xs (Suc i) (acc + duration x) = None"
    by (simp_all add: Let_def split: if_splits)
  from nx Cons.prems(2) have "acc + duration x \<le> t" by simp
  from Cons.IH [OF rest this] show ?case
    by (simp add: totalImageDuration_Cons add.assoc)
qed

lemma drawCanvas_loop_window:
  assumes "drawCanvas_loop t xs 0 0 = Some (i, s)"
  shows "i < length xs \<and> s = clipStartTime xs i \<and> inClipWindow xs t i"
  using drawCanvas_loop_Some [OF assms] by (auto simp: inClipWindow_def)

text \<open>
  \<open>getActiveImageIndex\<close> resolves every time from 0 on: to the first clip that covers it,
  and to the last clip when the time is at or past the total visual duration.
\<close>

lemma getActiveImageIndex_clamps:
  assumes ne: "images st \<noteq> []" and t0: "0 \<le> currentTime st"
  shows "\<exists>i<length (images st). getActiveImageIndex st = int i
           \<and> (inClipWindow (images st) (currentTime st) i
                \<or> (totalImageDuration (images st) \<le> currentTime st
                    \<and> i = length (images st) - 1))"
proof (cases "drawCanvas_loop (currentTime st) (images st) 0 0")
  case None
  from drawCanvas_loop_None_past [OF None] t0
  have "totalImageDuration (images st) \<le> currentTime st" by simp
  moreover have "getActiveImageIndex st = int (length (images st) - 1)"
    using ne None by (cases "images st") (simp_all add: getActiveImageIndex_def getActive_loop_eq)
  ultimately show ?thesis using ne by (intro exI [of _ "length (images st) - 1"]) simp
next
  case (Some p)
  obtain i s where p: "p = (i, s)" by (cases p)
  from drawCanvas_loop_window [of "currentTime st" "images st" i s] Some p
  have w: "i < length (images st)" "inClipWindow (images st) (currentTime st) i" by simp_all
  have "getActiveImageIndex st = int i"
    using ne Some p by (simp add: getActiveImageIndex_def getActive_loop_eq)
  with w show ?thesis by blast
qed

lemma scenarioA_simps:
  "images (scenarioA t) = [mkClip ''a'' 4 [], mkClip ''b'' 6 []]"
  "currentTime (scenarioA t) = t"
  "transitionEffect (scenarioA t) = TransFade"
  "transitionDuration (scenarioA t) = 1"
  "audioAsset (scenarioA t) = None"
  "canvasRef (scenarioA t) = Some \<lparr>width = 1280, height = 720\<rparr>"
  "lyrics (scenarioA t) = []"
  by (simp_all add: scenarioA_def initialApp_def)

lemma mkClip_simps: "duration (mkClip i d ovs) = d" "textOverlays (mkClip i d ovs) = ovs"
  "img_id (mkClip i d ovs) = i"
  by (simp_all add: mkClip_def)

text \<open>
  C4 (a defect of the code). The claim has clock resolution clamp to the last clip when
  the time is at or past the total visual duration. \<open>getActiveImageIndex\<close> does so
  (line 348, ``Default to last if at end''); the copy of that loop in \<open>drawCanvas\<close>
  (line 648) does not. In scenario A at \<open>t = 10\<close>, which lies in \<open>[0, totalDuration]\<close>,
  \<open>getActiveImageIndex\<close> answers 1, while the compositor resolves no clip and paints the
  cleared canvas only.
\<close>

theorem drawCanvas_no_clamp_at_end:
  "images (scenarioA 10) \<noteq> []
   \<and> 0 \<le> currentTime (scenarioA 10)
   \<and> currentTime (scenarioA 10) \<le> totalDuration (scenarioA 10)
   \<and> getActiveImageIndex (scenarioA 10) = 1
   \<and> drawCanvas_loop (currentTime (scenarioA 10)) (images (scenarioA 10)) 0 0 = None
   \<and> drawCanvas (scenarioA 10) = [SetFillStyle ''#000'', FillRect 0 0 1280 720]"
  by (simp add: scenarioA_simps mkClip_simps getActiveImageIndex_def totalDuration_def
      mainAudioDuration_def or_default_def totalImageDuration_def drawCanvas_def
      drawClips_def drawLyrics_def Let_def)

subsection \<open>Transitions\<close>

text \<open>
  C2 (as stated, refuted). In scenario A at \<open>t = 3.6\<close> the active index is 0 and the
  transition is active, as the claim says, but the progress is 0.6, not 0.4: the window is
  the last second of the clip, of which 0.6 seconds have elapsed.
\<close>

theorem transition_progress_counterexample:
  "drawCanvas_loop (currentTime (scenarioA (18/5))) (images (scenarioA (18/5))) 0 0 = Some (0, 0)
   \<and> isTransition (scenarioA (18/5)) 0 0
   \<and> transitionProgress (scenarioA (18/5)) 0 0 = 3/5
   \<and> transitionProgress (scenarioA (18/5)) 0 0 \<noteq> 2/5"
  by (simp add: scenarioA_simps mkClip_simps isTransition_def transitionProgress_def
      timeLeft_def transitionWindow_def)

text \<open>
  C2 (amended). With a transition effect other than none, and the time resolving to an
  active clip \<open>i\<close> that is not the last, of duration \<open>d\<close>: the local time lies in \<open>[0, d)\<close>;
  the transition is active exactly when the local time lies in
  \<open>[d - min(transitionDuration, d/2), d)\<close>; outside the window \<open>renderLayer\<close> is called once,
  for the active clip at opacity 1; inside it the next clip is drawn on top at an opacity
  equal to the progress, the elapsed part of the window divided by its length, which lies
  in \<open>[0, 1)\<close>. In scenario A at \<open>t = 3.6\<close> the active index is 0, the transition is active
  and the progress is 0.6.
\<close>

theorem transition_window:
  "(transitionEffect st \<noteq> TransNone
    \<and> drawCanvas_loop (currentTime st) (images st) 0 0 = Some (i, s)
    \<and> Suc i < length (images st) \<longrightarrow>
      (let d = duration (images st ! i);
           m = min (transitionDuration st) (d / 2);
           localTime = relativeTime st s
       in 0 \<le> localTime \<and> localTime < d
          \<and> (isTransition st i s \<longleftrightarrow> d - m \<le> localTime \<and> localTime < d)
          \<and> (\<not> isTransition st i s \<longrightarrow>
                layerCalls st i s = [(i, 1)]
                \<and> drawClips st w h = renderLayer st w h i 1
                     @ concat (map (drawOverlay st w h s) (textOverlays (images st ! i))))
          \<and> (isTransition st i s \<longrightarrow>
                0 < m
                \<and> transitionProgress st i s = (localTime - (d - m)) / m
                \<and> 0 \<le> transitionProgress st i s \<and> transitionProgress st i s < 1
                \<and> layerCalls st i s = [(i, 1), (i + 1, transitionProgress st i s)])))
   \<and> (drawCanvas_loop (currentTime (scenarioA (18/5))) (images (scenarioA (18/5))) 0 0
         = Some (0, 0)
       \<and> isTransition (scenarioA (18/5)) 0 0
       \<and> transitionProgress (scenarioA (18/5)) 0 0 = 3/5)"
proof (intro conjI impI)
  assume a: "transitionEffect st \<noteq> TransNone
    \<and> drawCanvas_loop (currentTime st) (images st) 0 0 = Some (i, s)
    \<and> Suc i < length (images st)"
  define d where "d = duration (images st ! i)"
  define m where "m = min (transitionDuration st) (d / 2)"
  define lt where "lt = relativeTime st s"
  from a have loop: "drawCanvas_loop (currentTime st) (images st) 0 0 = Some (i, s)" by simp
  from drawCanvas_loop_Some [OF loop]
  have win: "s \<le> currentTime st" "currentTime st < s + d"
    by (auto simp: d_def)
  then have lt: "0 \<le> lt" "lt < d" by (simp_all add: lt_def relativeTime_def)
  have tl: "timeLeft st i s = d - lt"
    by (simp add: timeLeft_def d_def lt_def relativeTime_def)
  have tw: "transitionWindow st i = m"
    by (simp add: transitionWindow_def m_def d_def)
  have it: "isTransition st i s \<longleftrightarrow> d - m \<le> lt \<and> lt < d"
    using a lt by (auto simp: isTransition_def tl tw)
  have off: "\<not> isTransition st i s \<longrightarrow>
                layerCalls st i s = [(i, 1)]
                \<and> drawClips st w h = renderLayer st w h i 1
                     @ concat (map (drawOverlay st w h s) (textOverlays (images st ! i)))"
    using a by (auto simp: layerCalls_def drawClips_def)
  have on: "isTransition st i s \<longrightarrow>
                0 < m
                \<and> transitionProgress st i s = (lt - (d - m)) / m
                \<and> 0 \<le> transitionProgress st i s \<and> transitionProgress st i s < 1
                \<and> layerCalls st i s = [(i, 1), (i + 1, transitionProgress st i s)]"
  proof
    assume on: "isTransition st i s"
    with it lt have m: "0 < m" by simp
    have p: "transitionProgress st i s = (lt - (d - m)) / m"
      using m by (simp add: transitionProgress_def tl tw field_simps)
    have "0 \<le> (lt - (d - m)) / m" using it on m by simp
    moreover have "(lt - (d - m)) / m < 1" using it on m by simp
    ultimately show "0 < m
                \<and> transitionProgress st i s = (lt - (d - m)) / m
                \<and> 0 \<le> transitionProgress st i s \<and> transitionProgress st i s < 1
                \<and> layerCalls st i s = [(i, 1), (i + 1, transitionProgress st i s)]"
      using m p on by (simp add: layerCalls_def)
  qed
  show "let d = duration (images st ! i);
           m = min (transitionDuration st) (d / 2);
           localTime = relativeTime st s
       in 0 \<le> localTime \<and> localTime < d
          \<and> (isTransition st i s \<longleftrightarrow> d - m \<le> localTime \<and> localTime < d)
          \<and> (\<not> isTransition st i s \<longrightarrow>
                layerCalls st i s = [(i, 1)]
                \<and> drawClips st w h = renderLayer st w h i 1
                     @ concat (map (drawOverlay st w h s) (textOverlays (images st ! i))))
          \<and> (isTransition st i s \<longrightarrow>
                0 < m
                \<and> transitionProgress st i s = (localTime - (d - m)) / m
                \<and> 0 \<le> transitionProgress st i s \<and> transitionProgress st i s < 1
                \<and> layerCalls st i s = [(i, 1), (i + 1, transitionProgress st i s)])"
    unfolding Let_def d_def [symmetric] m_def [symmetric] lt_def [symmetric]
    using lt it off on by blast
qed (simp_all add: scenarioA_simps mkClip_simps isTransition_def transitionProgress_def
      timeLeft_def transitionWindow_def)

text \<open>Scenario A inside the window, at 3.6 seconds, and outside it, at 1 second.\<close>

theorem transition_window_witness:
  "layerCalls (scenarioA (18/5)) 0 0 = [(0, 1), (1, 3/5)]
   \<and> \<not> isTransition (scenarioA 1) 0 0
   \<and> layerCalls (scenarioA 1) 0 0 = [(0, 1)]"
proof -
  have h: "transitionEffect (scenarioA t) \<noteq> TransNone \<and> Suc 0 < length (images (scenarioA t))"
    for t
    by (simp add: scenarioA_simps)
  have l1: "drawCanvas_loop (currentTime (scenarioA (18/5))) (images (scenarioA (18/5))) 0 0
      = Some (0, 0)"
    by (simp add: scenarioA_simps mkClip_simps)
  have l2: "drawCanvas_loop (currentTime (scenarioA 1)) (images (scenarioA 1)) 0 0 = Some (0, 0)"
    by (simp add: scenarioA_simps mkClip_simps)
  note wa = transition_window [of "scenarioA (18/5)" 0 0 1280 720]
  note wb = transition_window [of "scenarioA 1" 0 0 1280 720]
  from wa have on: "isTransition (scenarioA (18/5)) 0 0"
    and tp: "transitionProgress (scenarioA (18/5)) 0 0 = 3/5"
    by blast+
  have "layerCalls (scenarioA (18/5)) 0 0
      = [(0, 1), (0 + 1, transitionProgress (scenarioA (18/5)) 0 0)]"
    using wa h [of "18/5"] l1 on unfolding Let_def by blast
  then have a: "layerCalls (scenarioA (18/5)) 0 0 = [(0, 1), (1, 3/5)]"
    unfolding tp by simp
  have "isTransition (scenarioA 1) 0 0 \<longleftrightarrow>
      duration (images (scenarioA 1) ! 0)
        - min (transitionDuration (scenarioA 1)) (duration (images (scenarioA 1) ! 0) / 2)
        \<le> relativeTime (scenarioA 1) 0
      \<and> relativeTime (scenarioA 1) 0 < duration (images (scenarioA 1) ! 0)"
    using wb h [of 1] l2 unfolding Let_def by blast
  then have n: "\<not> isTransition (scenarioA 1) 0 0"
    by (simp add: scenarioA_simps mkClip_simps relativeTime_def)
  have b: "layerCalls (scenarioA 1) 0 0 = [(0, 1)]"
    using wb h [of 1] l2 n unfolding Let_def by blast
  from a n b show ?thesis by (intro conjI)
qed

subsection \<open>Subtitles\<close>











subsection \<open>Text overlays\<close>
















subsection \<open>Determinism of the compositor\<close>

lemma run_Nil: "run [] ctx = ctx"
  by (simp add: run_def)

lemma run_Cons: "run (c # cs) ctx = run cs (exec c ctx)"
  by (simp add: run_def)

lemma run_append: "run (a @ b) ctx = run b (run a ctx)"
  by (simp add: run_def)

lemma run_thrown: "thrown ctx \<Longrightarrow> run cmds ctx = ctx"
  by (induction cmds) (simp_all add: run_Nil run_Cons exec_def)

lemma persistent_idem: "persistent (persistent d) = persistent d"
  by (simp add: persistent_def)

lemma cur_blank: "cur (blank d) = persistent d"
  by (simp add: blank_def)

lemma blank_persistent: "blank (persistent d) = blank d"
  by (simp add: blank_def persistent_idem)

lemma selfContained_Nil: "selfContained []"
  by (simp add: selfContained_def run_Nil blank_def)

lemma selfContained_append:
  assumes a: "selfContained a" and b: "selfContained b"
  shows "selfContained (a @ b)"
  unfolding selfContained_def
proof (intro allI)
  fix ctx :: Ctx2D
  let ?B = "blank (cur ctx)"
  show "thrown ctx \<or>
        (thrown (run (a @ b) ctx) = thrown (run (a @ b) ?B)
         \<and> painted (run (a @ b) ctx) = painted ctx @ painted (run (a @ b) ?B)
         \<and> (thrown (run (a @ b) ctx) \<or>
              (cur (run (a @ b) ctx) = cur ctx \<and> saved (run (a @ b) ctx) = saved ctx)))"
  proof (cases "thrown ctx")
    case True
    then show ?thesis by simp
  next
    case nt: False
    have ntB: "\<not> thrown ?B" by (simp add: blank_def)
    from a nt have a1: "thrown (run a ctx) = thrown (run a ?B)"
      and a2: "painted (run a ctx) = painted ctx @ painted (run a ?B)"
      and a3: "thrown (run a ctx) \<or> (cur (run a ctx) = cur ctx \<and> saved (run a ctx) = saved ctx)"
      unfolding selfContained_def by blast+
    from a ntB have a3B: "thrown (run a ?B) \<or> cur (run a ?B) = cur ?B"
      unfolding selfContained_def by blast
    show ?thesis
    proof (cases "thrown (run a ctx)")
      case True
      with a1 have tB: "thrown (run a ?B)" by simp
      from True tB a2 show ?thesis
        by (simp add: run_append run_thrown)
    next
      case False
      with a1 have fB: "\<not> thrown (run a ?B)" by simp
      from False a3 have c: "cur (run a ctx) = cur ctx" "saved (run a ctx) = saved ctx"
        by simp_all
      from fB a3B have cB: "cur (run a ?B) = persistent (cur ctx)"
        by (simp add: cur_blank)
      from b False have b1: "thrown (run b (run a ctx)) = thrown (run b ?B)"
        and b2: "painted (run b (run a ctx))
                  = painted (run a ctx) @ painted (run b ?B)"
        and b3: "thrown (run b (run a ctx)) \<or>
              (cur (run b (run a ctx)) = cur ctx \<and> saved (run b (run a ctx)) = saved ctx)"
        unfolding selfContained_def using c by metis+
      from b fB have b1B: "thrown (run b (run a ?B)) = thrown (run b ?B)"
        and b2B: "painted (run b (run a ?B)) = painted (run a ?B) @ painted (run b ?B)"
        unfolding selfContained_def using cB blank_persistent by metis+
      show ?thesis
        unfolding run_append
        using b1 b2 b3 b1B b2B a2 by simp
    qed
  qed
qed

lemma selfContained_concat:
  "(\<And>x. selfContained (f x)) \<Longrightarrow> selfContained (concat (map f xs))"
  by (induction xs) (simp_all add: selfContained_Nil selfContained_append)

lemma selfContainedI:
  assumes "\<And>ctx. \<not> thrown ctx \<Longrightarrow>
     thrown (run cmds ctx) = thrown (run cmds (blank (cur ctx)))
     \<and> painted (run cmds ctx) = painted ctx @ painted (run cmds (blank (cur ctx)))
     \<and> (thrown (run cmds ctx) \<or>
          (cur (run cmds ctx) = cur ctx \<and> saved (run cmds ctx) = saved ctx))"
  shows "selfContained cmds"
  unfolding selfContained_def using assms by blast

lemma blank_simps: "\<not> thrown (blank d)" "painted (blank d) = []" "saved (blank d) = []"
  by (simp_all add: blank_def)

lemmas exec_defs = run_Cons run_Nil exec_def paintWith_def noText_def noStroke_def noFill_def
  persistent_def blank_simps cur_blank defaultState_def

lemma selfContained_drawOverlay: "selfContained (drawOverlay st w h s ov)"
  by (rule selfContainedI) (simp add: drawOverlay_def Let_def exec_defs)

lemma selfContained_layer:
  "selfContained [Save, SetGlobalAlpha a, SetFilter f, Translate x1 y1, Save, Scale s1 s2,
     AppendFilter g, DrawImage el x2 y2 sz1, Restore, Translate x3 y3, Scale s3 s4,
     SetShadowColor sc, SetShadowBlur sb, DrawImage el x4 y4 sz2, Restore]"
proof (rule selfContainedI)
  fix ctx :: Ctx2D
  assume nt: "\<not> thrown ctx"
  let ?cmds = "[Save, SetGlobalAlpha a, SetFilter f, Translate x1 y1, Save, Scale s1 s2,
     AppendFilter g, DrawImage el x2 y2 sz1, Restore, Translate x3 y3, Scale s3 s4,
     SetShadowColor sc, SetShadowBlur sb, DrawImage el x4 y4 sz2, Restore]"
  show "thrown (run ?cmds ctx) = thrown (run ?cmds (blank (cur ctx)))
     \<and> painted (run ?cmds ctx) = painted ctx @ painted (run ?cmds (blank (cur ctx)))
     \<and> (thrown (run ?cmds ctx) \<or>
          (cur (run ?cmds ctx) = cur ctx \<and> saved (run ?cmds ctx) = saved ctx))"
  proof (cases "drawImageOutcome el x2 y2 sz1")
    case Throws
    with nt show ?thesis by (simp add: exec_defs)
  next
    case Ignored
    show ?thesis
    proof (cases "drawImageOutcome el x4 y4 sz2")
      case Throws
      with Ignored nt show ?thesis by (simp add: exec_defs)
    next
      case Ignored
      with \<open>drawImageOutcome el x2 y2 sz1 = Ignored\<close> nt show ?thesis by (simp add: exec_defs)
    next
      case Paints
      with Ignored nt show ?thesis by (simp add: exec_defs)
    qed
  next
    case Paints
    show ?thesis
    proof (cases "drawImageOutcome el x4 y4 sz2")
      case Throws
      with \<open>drawImageOutcome el x2 y2 sz1 = Paints\<close> nt show ?thesis by (simp add: exec_defs)
    next
      case Ignored
      with \<open>drawImageOutcome el x2 y2 sz1 = Paints\<close> nt show ?thesis by (simp add: exec_defs)
    next
      case p2: Paints
      with Paints nt show ?thesis by (simp add: exec_defs)
    qed
  qed
qed

lemma selfContained_drawLyrics: "selfContained (drawLyrics st w h)"
  by (rule selfContainedI) (simp add: drawLyrics_def Let_def exec_defs split: option.splits)

lemma selfContained_renderLayer: "selfContained (renderLayer st w h idx op)"
proof (cases "imageElementsRef st (img_id (images st ! idx))")
  case None
  then show ?thesis by (simp add: renderLayer_def Let_def selfContained_Nil)
next
  case (Some el)
  show ?thesis
  proof (cases "complete el")
    case False
    with Some show ?thesis by (simp add: renderLayer_def Let_def selfContained_Nil)
  next
    case True
    show ?thesis
      by (simp only: renderLayer_def Let_def Some option.simps True not_True_eq_False if_False)
         (rule selfContained_layer)
  qed
qed

lemma selfContained_drawClips: "selfContained (drawClips st w h)"
proof -
  have "\<And>p. selfContained ((\<lambda>(idx, layerOpacity). renderLayer st w h idx layerOpacity) p)"
    by (simp add: selfContained_renderLayer split: prod.splits)
  then show ?thesis
    by (simp add: drawClips_def selfContained_Nil selfContained_append selfContained_concat
        selfContained_drawOverlay split: option.splits prod.splits)
qed

lemma call_thrown_same:
  "\<not> thrown c1 \<Longrightarrow> \<not> thrown c2 \<Longrightarrow> thrown (call c c1) = thrown (call c c2)"
  by (cases c) (auto simp: paintWith_def split: list.splits ImageOutcome.splits)

lemma run_thrown_same:
  "\<not> thrown c1 \<Longrightarrow> \<not> thrown c2 \<Longrightarrow> thrown (run cmds c1) = thrown (run cmds c2)"
proof (induction cmds arbitrary: c1 c2)
  case Nil
  then show ?case by (simp add: run_Nil)
next
  case (Cons c cmds)
  from Cons.prems have e: "exec c c1 = call c c1" "exec c c2 = call c c2"
    by (simp_all add: exec_def)
  from Cons.prems have s: "thrown (call c c1) = thrown (call c c2)"
    by (rule call_thrown_same)
  show ?case
  proof (cases "thrown (call c c1)")
    case True
    with s show ?thesis by (simp add: run_Cons e run_thrown)
  next
    case False
    with s Cons.IH [of "call c c1" "call c c2"] show ?thesis by (simp add: run_Cons e)
  qed
qed

lemma drawCanvas_frame:
  assumes nt: "\<not> thrown ctx"
  shows "painted (run (drawCanvas st) ctx)
           = painted ctx @ painted (run (drawCanvas st) (blank (cur ctx)))
   \<and> (thrown (run (drawCanvas st) ctx)
       \<or> persistent (cur (run (drawCanvas st) ctx)) = persistent (cur ctx))"
proof (cases "canvasRef st")
  case None
  then show ?thesis by (simp add: drawCanvas_def run_Nil blank_simps)
next
  case (Some cv)
  show ?thesis
  proof (cases "length (images st) = 0 \<and> audioAsset st = None")
    case True
    with Some nt show ?thesis
      by (simp add: drawCanvas_def Let_def exec_defs)
  next
    case False
    define rest where
      "rest = drawClips st (width cv) (height cv) @ drawLyrics st (width cv) (height cv)"
    have sc: "selfContained rest"
      by (simp add: rest_def selfContained_append selfContained_drawClips
          selfContained_drawLyrics)
    have dc: "drawCanvas st = [SetFillStyle ''#000'', FillRect 0 0 (width cv) (height cv)] @ rest"
      using Some False by (auto simp: drawCanvas_def Let_def rest_def)
    define c1 where "c1 = run [SetFillStyle ''#000'', FillRect 0 0 (width cv) (height cv)] ctx"
    define b1 where "b1 = run [SetFillStyle ''#000'', FillRect 0 0 (width cv) (height cv)] (blank (cur ctx))"
    have c1: "persistent (cur c1) = persistent (cur ctx)"
      "painted c1 = painted ctx @ painted b1" "persistent (cur b1) = persistent (cur ctx)"
      "\<not> thrown c1" "\<not> thrown b1"
      using nt by (simp_all add: c1_def b1_def exec_defs)
    from sc c1(4) have r1: "painted (run rest c1) = painted c1 @ painted (run rest (blank (cur c1)))"
      and r2: "thrown (run rest c1) \<or> cur (run rest c1) = cur c1"
      unfolding selfContained_def by blast+
    from sc c1(5) have r3: "painted (run rest b1) = painted b1 @ painted (run rest (blank (cur b1)))"
      unfolding selfContained_def by blast
    have bb: "blank (cur c1) = blank (cur ctx)" "blank (cur b1) = blank (cur ctx)"
      using c1 by (simp_all add: blank_def)
    have 1: "painted (run (drawCanvas st) ctx)
        = painted ctx @ painted b1 @ painted (run rest (blank (cur ctx)))"
      unfolding dc run_append c1_def [symmetric]
      by (simp only: r1 bb c1(2) append_assoc)
    have 2: "painted (run (drawCanvas st) (blank (cur ctx)))
        = painted b1 @ painted (run rest (blank (cur ctx)))"
      unfolding dc run_append b1_def [symmetric]
      by (simp only: r3 bb)
    have 3: "thrown (run (drawCanvas st) ctx)
       \<or> persistent (cur (run (drawCanvas st) ctx)) = persistent (cur ctx)"
      unfolding dc run_append c1_def [symmetric]
      using r2 c1(1) by auto
    from 1 2 3 show ?thesis by simp
  qed
qed

lemma call_painted_prefix: "\<exists>ps. painted (call c ctx) = painted ctx @ ps"
  by (cases c) (auto simp: paintWith_def split: list.splits ImageOutcome.splits)

lemma exec_painted_prefix: "\<exists>ps. painted (exec c ctx) = painted ctx @ ps"
  by (cases "thrown ctx") (simp_all add: exec_def call_painted_prefix)

lemma run_painted_prefix: "\<exists>ps. painted (run cmds ctx) = painted ctx @ ps"
proof (induction cmds arbitrary: ctx)
  case Nil
  show ?case by (simp add: run_Nil)
next
  case (Cons c cmds)
  obtain p1 where p1: "painted (exec c ctx) = painted ctx @ p1"
    using exec_painted_prefix by blast
  obtain p2 where "painted (run cmds (exec c ctx)) = painted (exec c ctx) @ p2"
    using Cons.IH by blast
  with p1 show ?case by (simp add: run_Cons)
qed

lemma frame_blank: "frame st ctx = painted (run (drawCanvas st) (blank (cur ctx)))"
  using drawCanvas_frame [of "ctx\<lparr>painted := [], thrown := False\<rparr>" st]
  by (simp add: frame_def tick_def)

lemma persistent_tick:
  assumes "returns st"
  shows "persistent (cur (tick st ctx)) = persistent (cur ctx)"
proof -
  let ?c = "ctx\<lparr>painted := [], thrown := False\<rparr>"
  let ?f = "freshContext\<lparr>painted := [], thrown := False\<rparr>"
  have "thrown (run (drawCanvas st) ?c) = thrown (run (drawCanvas st) ?f)"
    by (rule run_thrown_same) simp_all
  with assms have "\<not> thrown (run (drawCanvas st) ?c)"
    by (simp add: returns_def tick_def)
  with drawCanvas_frame [of ?c st] show ?thesis
    by (simp add: tick_def)
qed

lemma persistent_fold_tick:
  "list_all returns hist \<Longrightarrow> persistent (cur (fold tick hist ctx)) = persistent (cur ctx)"
  by (induction hist arbitrary: ctx) (simp_all add: persistent_tick)

lemma blank_cong: "persistent d = persistent d' \<Longrightarrow> blank d = blank d'"
  by (simp add: blank_def)

lemma frame_clear:
  assumes "canvasRef st = Some cv"
  shows "\<exists>rest. frame st freshContext
     = (FillRect 0 0 (width cv) (height cv), defaultState\<lparr>fillStyle := ''#000''\<rparr>) # rest"
proof -
  obtain cmds where dc: "drawCanvas st
      = SetFillStyle ''#000'' # FillRect 0 0 (width cv) (height cv) # cmds"
    using assms by (simp add: drawCanvas_def Let_def)
  let ?c = "exec (FillRect 0 0 (width cv) (height cv))
              (exec (SetFillStyle ''#000'') (freshContext\<lparr>painted := [], thrown := False\<rparr>))"
  have p: "painted ?c = [(FillRect 0 0 (width cv) (height cv), defaultState\<lparr>fillStyle := ''#000''\<rparr>)]"
    by (simp add: exec_def freshContext_def paintWith_def noText_def noStroke_def
        defaultState_def)
  obtain ps where "painted (run cmds ?c) = painted ?c @ ps"
    using run_painted_prefix by blast
  with p show ?thesis
    by (simp add: frame_def tick_def dc run_Cons)
qed

lemma reads_drawCanvas:
  assumes "reads st1 = reads st2"
  shows "drawCanvas st1 = drawCanvas st2"
proof -
  from assms have e: "canvasRef st1 = canvasRef st2" "images st1 = images st2"
    "(audioAsset st1 = None) = (audioAsset st2 = None)" "currentTime st1 = currentTime st2"
    "transitionEffect st1 = transitionEffect st2"
    "transitionDuration st1 = transitionDuration st2" "lyrics st1 = lyrics st2"
    "imageElementsRef st1 = imageElementsRef st2"
    by (simp_all add: reads_def)
  have rl: "renderLayer st1 = renderLayer st2"
    by (intro ext) (simp only: renderLayer_def e)
  have lc: "layerCalls st1 = layerCalls st2"
    by (intro ext) (simp only: layerCalls_def isTransition_def transitionProgress_def
        timeLeft_def transitionWindow_def e)
  have ov: "drawOverlay st1 = drawOverlay st2"
    by (intro ext) (simp only: drawOverlay_def relativeTime_def e)
  have ly: "drawLyrics st1 = drawLyrics st2"
    by (intro ext) (simp only: drawLyrics_def currentLyric_def e)
  have cl: "drawClips st1 = drawClips st2"
    by (intro ext) (simp only: drawClips_def rl lc ov e)
  show ?thesis
    by (simp only: drawCanvas_def cl ly e)
qed

lemma scenarioA_with_simps:
  "images (scenarioA_with el t) = [mkClip ''a'' 4 [], mkClip ''b'' 6 []]"
  "currentTime (scenarioA_with el t) = t"
  "transitionEffect (scenarioA_with el t) = TransFade"
  "transitionDuration (scenarioA_with el t) = 1"
  "audioAsset (scenarioA_with el t) = None"
  "canvasRef (scenarioA_with el t) = Some \<lparr>width = 1280, height = 720\<rparr>"
  "lyrics (scenarioA_with el t) = []"
  "imageElementsRef (scenarioA_with el t) ''a'' = Some el"
  "imageElementsRef (scenarioA t) i = None"
  by (simp_all add: scenarioA_with_def scenarioA_def initialApp_def)

lemma drawCanvas_scenarioA_1:
  "drawCanvas (scenarioA 1) = [SetFillStyle ''#000'', FillRect 0 0 1280 720]"
  by (simp add: scenarioA_simps scenarioA_with_simps mkClip_simps drawCanvas_def drawClips_def
      drawLyrics_def Let_def layerCalls_def isTransition_def transitionWindow_def timeLeft_def
      relativeTime_def renderLayer_def)

lemma drawCanvas_scenarioA_with_1:
  "drawCanvas (scenarioA_with el 1)
     = [SetFillStyle ''#000'', FillRect 0 0 1280 720] @ renderLayer (scenarioA_with el 1) 1280 720 0 1"
  by (simp add: scenarioA_with_simps mkClip_simps drawCanvas_def drawClips_def
      drawLyrics_def Let_def layerCalls_def isTransition_def transitionWindow_def timeLeft_def
      relativeTime_def)

lemma frame_scenarioA_1:
  "frame (scenarioA 1) ctx
     = [(FillRect 0 0 1280 720, noText (noStroke ((cur ctx)\<lparr>fillStyle := ''#000''\<rparr>)))]"
  by (simp add: frame_def tick_def drawCanvas_scenarioA_1 run_Cons run_Nil exec_def paintWith_def)

lemmas js_simps = loadedElement_def brokenElement_def drawImageOutcome_def finiteArgs_def
  translated_def scaled_def

lemma tick_loaded:
  "length (painted (tick (scenarioA_with loadedElement 1) freshContext)) = 3"
  "\<not> thrown (tick (scenarioA_with loadedElement 1) freshContext)"
  by (simp_all add: tick_def drawCanvas_scenarioA_with_1 renderLayer_def Let_def
      scenarioA_with_simps mkClip_def clipStartTime_def freshContext_def exec_defs js_simps)

lemma tick_broken:
  "thrown (tick (scenarioA_with brokenElement 1) freshContext)"
  "transform (cur (tick (scenarioA_with brokenElement 1) freshContext)) = [XTranslate 640 360]"
  by (simp_all add: tick_def drawCanvas_scenarioA_with_1 renderLayer_def Let_def
      scenarioA_with_simps mkClip_def clipStartTime_def freshContext_def exec_defs js_simps)

text \<open>
  C7 (as stated, refuted). The frame depends on more than the clock and the project.
  \<open>drawCanvas\<close> reads the image elements of \<open>imageElementsRef\<close> and skips a clip whose
  element is not complete (line 654), and a \<open>drawImage\<close> that throws leaves the canvas
  context as it was at the throw. In scenario A at \<open>t = 1\<close>, with the same time, clips,
  lyrics, settings and canvas, the frame has one primitive while no element is registered
  and three once the element of the first clip has loaded. After a call on a broken
  element, where \<open>drawImage\<close> throws behind two \<open>save\<close> calls and a \<open>translate\<close>, the next
  frame of the same state is not what it is on a fresh context.
\<close>

theorem compositing_inputs_counterexample:
  "currentTime (scenarioA 1) = currentTime (scenarioA_with loadedElement 1)
   \<and> images (scenarioA 1) = images (scenarioA_with loadedElement 1)
   \<and> lyrics (scenarioA 1) = lyrics (scenarioA_with loadedElement 1)
   \<and> transitionEffect (scenarioA 1) = transitionEffect (scenarioA_with loadedElement 1)
   \<and> transitionDuration (scenarioA 1) = transitionDuration (scenarioA_with loadedElement 1)
   \<and> resolution (scenarioA 1) = resolution (scenarioA_with loadedElement 1)
   \<and> frameRate (scenarioA 1) = frameRate (scenarioA_with loadedElement 1)
   \<and> audioAsset (scenarioA 1) = audioAsset (scenarioA_with loadedElement 1)
   \<and> canvasRef (scenarioA 1) = canvasRef (scenarioA_with loadedElement 1)
   \<and> length (frame (scenarioA 1) freshContext) = 1
   \<and> length (frame (scenarioA_with loadedElement 1) freshContext) = 3
   \<and> thrown (tick (scenarioA_with brokenElement 1) freshContext)
   \<and> frame (scenarioA 1) (tick (scenarioA_with brokenElement 1) freshContext)
       \<noteq> frame (scenarioA 1) freshContext"
proof -
  have same: "currentTime (scenarioA 1) = currentTime (scenarioA_with loadedElement 1)
   \<and> images (scenarioA 1) = images (scenarioA_with loadedElement 1)
   \<and> lyrics (scenarioA 1) = lyrics (scenarioA_with loadedElement 1)
   \<and> transitionEffect (scenarioA 1) = transitionEffect (scenarioA_with loadedElement 1)
   \<and> transitionDuration (scenarioA 1) = transitionDuration (scenarioA_with loadedElement 1)
   \<and> resolution (scenarioA 1) = resolution (scenarioA_with loadedElement 1)
   \<and> frameRate (scenarioA 1) = frameRate (scenarioA_with loadedElement 1)
   \<and> audioAsset (scenarioA 1) = audioAsset (scenarioA_with loadedElement 1)
   \<and> canvasRef (scenarioA 1) = canvasRef (scenarioA_with loadedElement 1)"
    by (simp add: scenarioA_with_def)
  have l1: "length (frame (scenarioA 1) freshContext) = 1"
    by (simp add: frame_scenarioA_1)
  have l3: "length (frame (scenarioA_with loadedElement 1) freshContext) = 3"
    by (simp add: frame_def tick_loaded)
  have "transform (snd (hd (frame (scenarioA 1)
          (tick (scenarioA_with brokenElement 1) freshContext)))) = [XTranslate 640 360]"
    by (simp add: frame_scenarioA_1 tick_broken noText_def noStroke_def)
  moreover have "transform (snd (hd (frame (scenarioA 1) freshContext))) = []"
    by (simp add: frame_scenarioA_1 noText_def noStroke_def freshContext_def defaultState_def)
  ultimately have ne: "frame (scenarioA 1) (tick (scenarioA_with brokenElement 1) freshContext)
       \<noteq> frame (scenarioA 1) freshContext"
    by auto
  from same l1 l3 tick_broken(1) ne show ?thesis by blast
qed

text \<open>
  C7 (amended). Two invocations that read the same values (the canvas, the clips with
  their overlays, whether a main audio is loaded, the time, the transition settings, the
  lyrics and the image elements) paint the same primitives with the same drawing state,
  whatever invocations came before each of them, provided none of those threw. A frame on
  a fresh context starts with the opaque full-canvas clear (black fill, default alpha, no
  filter, no transform), and nothing is painted without a canvas.
\<close>

theorem compositing_deterministic:
  "(reads st1 = reads st2 \<and> list_all returns hist1 \<and> list_all returns hist2 \<longrightarrow>
      frame st1 (fold tick hist1 freshContext) = frame st2 (fold tick hist2 freshContext))
   \<and> (case canvasRef st of
        None \<Rightarrow> frame st freshContext = []
      | Some cv \<Rightarrow>
          take 1 (frame st freshContext)
            = [(FillRect 0 0 (width cv) (height cv), defaultState\<lparr>fillStyle := ''#000''\<rparr>)])"
proof (intro conjI impI)
  assume a: "reads st1 = reads st2 \<and> list_all returns hist1 \<and> list_all returns hist2"
  then have "reads st1 = reads st2" by simp
  then have d: "drawCanvas st1 = drawCanvas st2" by (rule reads_drawCanvas)
  from a have h1: "list_all returns hist1" and h2: "list_all returns hist2" by simp_all
  have "blank (cur (fold tick hist1 freshContext)) = blank (cur freshContext)"
    by (rule blank_cong) (rule persistent_fold_tick [OF h1])
  moreover have "blank (cur (fold tick hist2 freshContext)) = blank (cur freshContext)"
    by (rule blank_cong) (rule persistent_fold_tick [OF h2])
  ultimately show "frame st1 (fold tick hist1 freshContext) = frame st2 (fold tick hist2 freshContext)"
    by (simp only: frame_blank d)
next
  show "case canvasRef st of
        None \<Rightarrow> frame st freshContext = []
      | Some cv \<Rightarrow>
          take 1 (frame st freshContext)
            = [(FillRect 0 0 (width cv) (height cv), defaultState\<lparr>fillStyle := ''#000''\<rparr>)]"
  proof (cases "canvasRef st")
    case None
    then show ?thesis by (simp add: frame_def tick_def drawCanvas_def run_Nil)
  next
    case (Some cv)
    from frame_clear [OF this] Some show ?thesis by auto
  qed
qed

theorem compositing_deterministic_witness:
  "reads ((scenarioA_with loadedElement 1)\<lparr>isPlaying := True\<rparr>)
     = reads (scenarioA_with loadedElement 1)
   \<and> list_all returns [scenarioA 1, scenarioA_with loadedElement 1]
   \<and> frame ((scenarioA_with loadedElement 1)\<lparr>isPlaying := True\<rparr>)
        (fold tick [scenarioA 1, scenarioA_with loadedElement 1] freshContext)
       = frame (scenarioA_with loadedElement 1) (fold tick [] freshContext)
   \<and> take 1 (frame (scenarioA_with loadedElement 1) freshContext)
       = [(FillRect 0 0 1280 720, defaultState\<lparr>fillStyle := ''#000''\<rparr>)]"
proof -
  let ?s = "scenarioA_with loadedElement 1"
  have r: "reads (?s\<lparr>isPlaying := True\<rparr>) = reads ?s"
    by (simp add: reads_def)
  have "returns (scenarioA 1)"
    by (simp add: returns_def tick_def drawCanvas_scenarioA_1 freshContext_def exec_defs)
  moreover have "returns ?s"
    by (simp add: returns_def tick_loaded)
  ultimately have h1: "list_all returns [scenarioA 1, ?s]" by simp
  have h2: "list_all returns []" by simp
  have c: "canvasRef ?s = Some \<lparr>width = 1280, height = 720\<rparr>"
    by (simp add: scenarioA_with_simps)
  note t = compositing_deterministic [of "?s\<lparr>isPlaying := True\<rparr>" ?s "[scenarioA 1, ?s]" "[]" ?s]
  from t r h1 h2 have f: "frame (?s\<lparr>isPlaying := True\<rparr>) (fold tick [scenarioA 1, ?s] freshContext)
       = frame ?s (fold tick [] freshContext)"
    by blast
  from t have "case canvasRef ?s of
        None \<Rightarrow> frame ?s freshContext = []
      | Some cv \<Rightarrow>
          take 1 (frame ?s freshContext)
            = [(FillRect 0 0 (width cv) (height cv), defaultState\<lparr>fillStyle := ''#000''\<rparr>)]"
    by (rule conjunct2)
  then have g: "take 1 (frame ?s freshContext)
       = [(FillRect 0 0 1280 720, defaultState\<lparr>fillStyle := ''#000''\<rparr>)]"
    unfolding c by simp
  from r h1 f g show ?thesis by (intro conjI)
qed

subsection \<open>Inserting clips\<close>

lemma map_duration_newImage:
  "map (duration \<circ> (\<lambda>(k, file). newImage d (rid k) (url k) file)) xs
     = replicate (length xs) d"
  by (induction xs) (auto simp: newImage_def)

text \<open>
  C8. \<open>processFiles\<close> keeps the clips that are there and appends one clip per image file.
  Every appended clip has the same duration: the main audio duration divided by the number
  of clips after the insertion (the clips there plus the image files inserted) when a main
  audio is loaded, and 5 seconds when none is.
\<close>

theorem processFiles_default_duration:
  "take (length (images st)) (images (processFiles rid url files st)) = images st
   \<and> length (images (processFiles rid url files st))
       = length (images st) + length (filter isImageFile files)
   \<and> map duration (drop (length (images st)) (images (processFiles rid url files st)))
       = replicate (length (filter isImageFile files))
           (case audioAsset st of
              None \<Rightarrow> 5
            | Some a \<Rightarrow>
                audio_duration a / real (length (images st) + length (filter isImageFile files)))"
proof (cases "filter isImageFile files = []")
  case True
  then show ?thesis by (simp add: processFiles_def)
next
  case False
  then have n: "length (filter isImageFile files) > 0" by simp
  have d: "nextDuration st (filter isImageFile files)
      = (case audioAsset st of
              None \<Rightarrow> 5
            | Some a \<Rightarrow>
                audio_duration a / real (length (images st) + length (filter isImageFile files)))"
    using n by (simp add: nextDuration_def split: option.splits)
  from False show ?thesis
    by (simp add: processFiles_def Let_def addToast_def map_duration_newImage d)
qed

subsection \<open>Reordering clips\<close>

lemma totalImageDuration_mset:
  assumes "mset xs = mset ys"
  shows "totalImageDuration xs = totalImageDuration ys"
proof -
  have "sum_list (map duration xs) = sum_mset (image_mset duration (mset xs))"
    by (simp add: sum_mset_sum_list [symmetric])
  also have "\<dots> = sum_mset (image_mset duration (mset ys))"
    by (simp only: assms)
  also have "\<dots> = sum_list (map duration ys)"
    by (simp add: sum_mset_sum_list [symmetric])
  finally show ?thesis by (simp only: totalImageDuration_sum_list)
qed

lemma mset_splice:
  assumes "i < length xs"
  shows "mset (splice_insert j (xs ! i) (take i xs @ drop (Suc i) xs)) = mset xs"
proof -
  let ?r = "take i xs @ drop (Suc i) xs"
  have "mset (splice_insert j (xs ! i) ?r) = mset (take j ?r @ drop j ?r) + {#xs ! i#}"
    unfolding splice_insert_def by (simp only: mset_append mset.simps) simp
  also have "\<dots> = mset ?r + {#xs ! i#}" by (simp only: append_take_drop_id)
  also have "\<dots> = mset (take i xs @ xs ! i # drop (Suc i) xs)" by simp
  also have "\<dots> = mset xs" using id_take_nth_drop [OF assms] by simp
  finally show ?thesis .
qed

lemma findIndex_less: "findIndex P xs = Some i \<Longrightarrow> i < length xs"
  by (induction xs arbitrary: i) (auto split: if_splits)

lemma mset_swapWith:
  "i < length xs \<Longrightarrow> j < length xs \<Longrightarrow> mset (swapWith i j xs) = mset xs"
  unfolding swapWith_def by (rule mset_swap)

lemma perm_facts:
  assumes "mset ys = mset xs"
  shows "length ys = length xs \<and> totalImageDuration ys = totalImageDuration xs"
  using assms mset_eq_length totalImageDuration_mset by blast

text \<open>
  C10. Reordering is a permutation. \<open>handleTimelineReorder\<close>, for the index of a clip that
  is there, and \<open>moveSelectedImageOrder\<close> change nothing but the order of the clips: the
  new sequence has the same clips with the same multiplicities (each clip with its id,
  duration, crop, adjustments and overlays), hence the same length and the same total
  visual duration. Reordering a clip onto its own index leaves the state as it is.
\<close>

theorem reorder_is_permutation:
  "(fromIndex < length (images st) \<longrightarrow>
      (\<exists>st'. handleTimelineReorder fromIndex toIndex st = Some st'
         \<and> st' = st\<lparr>images := images st'\<rparr>
         \<and> mset (images st') = mset (images st)
         \<and> length (images st') = length (images st)
         \<and> totalImageDuration (images st') = totalImageDuration (images st)))
   \<and> handleTimelineReorder i i st = Some st
   \<and> moveSelectedImageOrder direction st = st\<lparr>images := images (moveSelectedImageOrder direction st)\<rparr>
   \<and> mset (images (moveSelectedImageOrder direction st)) = mset (images st)
   \<and> length (images (moveSelectedImageOrder direction st)) = length (images st)
   \<and> totalImageDuration (images (moveSelectedImageOrder direction st))
       = totalImageDuration (images st)"
proof (intro conjI impI)
  assume lt: "fromIndex < length (images st)"
  show "\<exists>st'. handleTimelineReorder fromIndex toIndex st = Some st'
         \<and> st' = st\<lparr>images := images st'\<rparr>
         \<and> mset (images st') = mset (images st)
         \<and> length (images st') = length (images st)
         \<and> totalImageDuration (images st') = totalImageDuration (images st)"
  proof (cases "fromIndex = toIndex")
    case True
    then show ?thesis by (simp add: handleTimelineReorder_def)
  next
    case False
    let ?ys = "splice_insert toIndex (images st ! fromIndex)
                 (take fromIndex (images st) @ drop (Suc fromIndex) (images st))"
    have r: "handleTimelineReorder fromIndex toIndex st = Some (st\<lparr>images := ?ys\<rparr>)"
      using False lt by (simp add: handleTimelineReorder_def splice_remove_def)
    have m: "mset ?ys = mset (images st)" by (rule mset_splice [OF lt])
    from perm_facts [OF m] r m show ?thesis by simp
  qed
next
  show "handleTimelineReorder i i st = Some st"
    by (simp add: handleTimelineReorder_def)
next
  show "moveSelectedImageOrder direction st
      = st\<lparr>images := images (moveSelectedImageOrder direction st)\<rparr>"
    by (simp add: moveSelectedImageOrder_def split: option.splits)
next
  show m: "mset (images (moveSelectedImageOrder direction st)) = mset (images st)"
    by (auto simp: moveSelectedImageOrder_def mset_swapWith dest: findIndex_less
        split: option.splits)
  from perm_facts [OF m]
  show "length (images (moveSelectedImageOrder direction st)) = length (images st)"
    and "totalImageDuration (images (moveSelectedImageOrder direction st))
       = totalImageDuration (images st)"
    by simp_all
qed

text \<open>Scenario A with its first clip dragged onto the second.\<close>

theorem reorder_is_permutation_witness:
  "handleTimelineReorder 0 1 (scenarioA 0)
     = Some ((scenarioA 0)\<lparr>images := [mkClip ''b'' 6 [], mkClip ''a'' 4 []]\<rparr>)
   \<and> totalImageDuration [mkClip ''b'' 6 [], mkClip ''a'' 4 []]
       = totalImageDuration (images (scenarioA 0))
   \<and> mset [mkClip ''b'' 6 [], mkClip ''a'' 4 []] = mset (images (scenarioA 0))"
proof -
  have lt: "0 < length (images (scenarioA 0))"
    by (simp add: scenarioA_simps)
  have r: "handleTimelineReorder 0 1 (scenarioA 0)
     = Some ((scenarioA 0)\<lparr>images := [mkClip ''b'' 6 [], mkClip ''a'' 4 []]\<rparr>)"
    by (simp add: handleTimelineReorder_def splice_remove_def splice_insert_def
        scenarioA_simps)
  from reorder_is_permutation [where fromIndex = 0 and st = "scenarioA 0" and toIndex = 1] lt
  obtain st' where "handleTimelineReorder 0 1 (scenarioA 0) = Some st'"
    "mset (images st') = mset (images (scenarioA 0))"
    "totalImageDuration (images st') = totalImageDuration (images (scenarioA 0))"
    by blast
  with r show ?thesis by auto
qed

subsection \<open>Export\<close>

text \<open>
  C5 (as stated, refuted). The claim has an export of a project with no clips and no main
  audio run the timer fallback for the 10 seconds of \<open>totalDuration\<close> and produce a file.
  Line 610 returns at once for such a project: no recorder is made, no timer is set, and
  nothing is ever offered for download.
\<close>

theorem export_empty_project_counterexample:
  "images initialApp = [] \<and> audioAsset initialApp = None
   \<and> totalDuration initialApp = 10
   \<and> handleExport workingBrowser initialApp = initialApp
   \<and> timers (handleExport workingBrowser initialApp) = []
   \<and> recorder (handleExport workingBrowser initialApp) = None
   \<and> downloads (onstop (timerFires (handleExport workingBrowser initialApp))) = []"
  by (simp add: handleExport_def initialApp_def timerFires_def onstop_def totalDuration_def
      mainAudioDuration_def or_default_def totalImageDuration_def)

lemma exportFailed_simps:
  "appState (exportFailed st) = READY"
  "speakersGainNodeRef (exportFailed st) = map_option (\<lambda>g. 1) (speakersGainNodeRef st)"
  "toasts (exportFailed st) = toasts st @ [(''Export failed.'', Error)]"
  "downloads (exportFailed st) = downloads st"
  "timers (exportFailed st) = timers st"
  "isPlaying (exportFailed st) = isPlaying st"
  "recorder (exportFailed st) = recorder st"
  "audioRef (exportFailed st) = audioRef st"
  by (simp_all add: exportFailed_def addToast_def)

lemma exportBegin_simps:
  "appState (exportBegin st) = EXPORTING"
  "speakersGainNodeRef (exportBegin st) = map_option (\<lambda>g. 0) (speakersGainNodeRef st)"
  "toasts (exportBegin st) = toasts st"
  "downloads (exportBegin st) = downloads st"
  "timers (exportBegin st) = timers st"
  "isPlaying (exportBegin st) = False"
  "recorder (exportBegin st) = recorder st"
  "audioRef (exportBegin st) = map_option pauseElement (audioRef st)"
  "destNodeRef (exportBegin st) = destNodeRef st"
  "audioAsset (exportBegin st) = audioAsset st"
  "images (exportBegin st) = images st"
  by (simp_all add: exportBegin_def)

lemma totalDuration_exportBegin: "totalDuration (exportBegin st) = totalDuration st"
  by (simp add: totalDuration_def exportBegin_simps)

lemma map_option_const: "map_option (\<lambda>g. c) (map_option (\<lambda>g. d) x) = map_option (\<lambda>g. c) x"
  by (cases x) simp_all

lemma exportSetup_throws:
  assumes "throwsAt b \<noteq> None \<or> (\<not> destNodeRef st \<and> audioRef st = None)"
  shows "appState (exportSetup b st) = READY
     \<and> speakersGainNodeRef (exportSetup b st) = map_option (\<lambda>g. 1) (speakersGainNodeRef st)
     \<and> toasts (exportSetup b st) = toasts st @ [(''Export failed.'', Error)]
     \<and> downloads (exportSetup b st) = downloads st
     \<and> timers (exportSetup b st) = timers st
     \<and> isPlaying (exportSetup b st) = isPlaying st
     \<and> (recorder (exportSetup b st) = recorder st
         \<or> (\<exists>r. recorder (exportSetup b st) = Some r \<and> rec_state r = Inactive))
     \<and> map_option onended_set (audioRef (exportSetup b st)) = map_option onended_set (audioRef st)
     \<and> map_option paused (audioRef (exportSetup b st)) = map_option paused (audioRef st)"
proof (cases "throwsAt b")
  case None
  with assms show ?thesis
    by (simp add: exportSetup_def exportFailed_simps)
next
  case (Some step)
  show ?thesis
  proof (cases "\<not> destNodeRef st \<and> audioRef st = None")
    case True
    then show ?thesis by (simp add: exportSetup_def exportFailed_simps)
  next
    case False
    show ?thesis
    proof (cases step)
      case CaptureStream
      with Some show ?thesis by (simp add: exportSetup_def exportFailed_simps)
    next
      case CombineStreams
      with Some show ?thesis by (simp add: exportSetup_def exportFailed_simps)
    next
      case CreateRecorder
      with Some show ?thesis by (simp add: exportSetup_def exportFailed_simps)
    next
      case StartRecorder
      with Some False show ?thesis
        by (cases "audioRef st")
           (auto simp: exportSetup_def exportFailed_simps Let_def newRecorder_def
              rewindElement_def)
    qed
  qed
qed

text \<open>
  C9. When a call of the export setup throws (the capture of the canvas stream, the
  combined stream, the recorder's construction or its start, or the read of
  \<open>captureStream\<close> off an audio element that is not there), the export is aborted: the app
  is in the ready state, the speakers gain, when the node exists, is back at 1, the toast
  ``Export failed.'' is shown, no file is offered for download, and nothing is left that
  would offer one later (no timer, no recording recorder, no \<open>onended\<close> handler).
\<close>

theorem export_setup_failure:
  "canvasRef st \<noteq> None \<and> (images st \<noteq> [] \<or> audioAsset st \<noteq> None)
   \<and> (throwsAt b \<noteq> None \<or> (\<not> destNodeRef st \<and> audioRef st = None)) \<longrightarrow>
     appState (handleExport b st) = READY
     \<and> speakersGainNodeRef (handleExport b st) = map_option (\<lambda>g. 1) (speakersGainNodeRef st)
     \<and> toasts (handleExport b st) = toasts st @ [(''Export failed.'', Error)]
     \<and> downloads (handleExport b st) = downloads st
     \<and> timers (handleExport b st) = timers st
     \<and> \<not> isPlaying (handleExport b st)
     \<and> (recorder (handleExport b st) = recorder st
         \<or> (\<exists>r. recorder (handleExport b st) = Some r \<and> rec_state r = Inactive))
     \<and> map_option onended_set (audioRef (handleExport b st))
         = map_option onended_set (audioRef st)"
proof
  assume a: "canvasRef st \<noteq> None \<and> (images st \<noteq> [] \<or> audioAsset st \<noteq> None)
   \<and> (throwsAt b \<noteq> None \<or> (\<not> destNodeRef st \<and> audioRef st = None))"
  then have h: "handleExport b st = exportSetup b (exportBegin st)"
    by (auto simp: handleExport_def)
  from a have t: "throwsAt b \<noteq> None
      \<or> (\<not> destNodeRef (exportBegin st) \<and> audioRef (exportBegin st) = None)"
    by (auto simp: exportBegin_simps)
  have o: "map_option onended_set (map_option pauseElement (audioRef st))
      = map_option onended_set (audioRef st)"
    by (cases "audioRef st") (simp_all add: pauseElement_def)
  from exportSetup_throws [OF t]
  show "appState (handleExport b st) = READY
     \<and> speakersGainNodeRef (handleExport b st) = map_option (\<lambda>g. 1) (speakersGainNodeRef st)
     \<and> toasts (handleExport b st) = toasts st @ [(''Export failed.'', Error)]
     \<and> downloads (handleExport b st) = downloads st
     \<and> timers (handleExport b st) = timers st
     \<and> \<not> isPlaying (handleExport b st)
     \<and> (recorder (handleExport b st) = recorder st
         \<or> (\<exists>r. recorder (handleExport b st) = Some r \<and> rec_state r = Inactive))
     \<and> map_option onended_set (audioRef (handleExport b st))
         = map_option onended_set (audioRef st)"
    unfolding h by (simp add: exportBegin_simps map_option_const o)
qed

text \<open>Scenario A with an audio graph, in a browser where the recorder cannot be built.\<close>

theorem export_setup_failure_witness:
  "appState (handleExport (workingBrowser\<lparr>throwsAt := Some CreateRecorder\<rparr>)
       ((scenarioA 0)\<lparr>speakersGainNodeRef := Some 1, destNodeRef := True\<rparr>)) = READY
   \<and> speakersGainNodeRef (handleExport (workingBrowser\<lparr>throwsAt := Some CreateRecorder\<rparr>)
       ((scenarioA 0)\<lparr>speakersGainNodeRef := Some 1, destNodeRef := True\<rparr>)) = Some 1
   \<and> toasts (handleExport (workingBrowser\<lparr>throwsAt := Some CreateRecorder\<rparr>)
       ((scenarioA 0)\<lparr>speakersGainNodeRef := Some 1, destNodeRef := True\<rparr>))
       = [(''Export failed.'', Error)]
   \<and> downloads (handleExport (workingBrowser\<lparr>throwsAt := Some CreateRecorder\<rparr>)
       ((scenarioA 0)\<lparr>speakersGainNodeRef := Some 1, destNodeRef := True\<rparr>)) = []"
proof -
  let ?b = "workingBrowser\<lparr>throwsAt := Some CreateRecorder\<rparr>"
  let ?st = "(scenarioA 0)\<lparr>speakersGainNodeRef := Some 1, destNodeRef := True\<rparr>"
  have h: "canvasRef ?st \<noteq> None \<and> (images ?st \<noteq> [] \<or> audioAsset ?st \<noteq> None)
      \<and> (throwsAt ?b \<noteq> None \<or> (\<not> destNodeRef ?st \<and> audioRef ?st = None))"
    by (simp add: scenarioA_def initialApp_def)
  have s: "speakersGainNodeRef ?st = Some 1" "toasts ?st = []" "downloads ?st = []"
    by (simp_all add: scenarioA_def initialApp_def)
  from export_setup_failure [of ?st ?b] h
  have "appState (handleExport ?b ?st) = READY"
    "speakersGainNodeRef (handleExport ?b ?st) = map_option (\<lambda>g. 1) (speakersGainNodeRef ?st)"
    "toasts (handleExport ?b ?st) = toasts ?st @ [(''Export failed.'', Error)]"
    "downloads (handleExport ?b ?st) = downloads ?st"
    by blast+
  then show ?thesis by (simp only: s) simp
qed

text \<open>
  C5 (amended). Starting an export on a project with no clips and no main audio does
  nothing. The timer fallback serves a project that has clips and no main audio: when the
  setup does not throw, the export starts recording and sets one timer of exactly
  \<open>totalDuration\<close> seconds; when that timer fires the recorder stops, and its \<open>onstop\<close>
  handler offers \<open>lyricalflow.webm\<close>, made of the chunks received, for download, returns
  the app to the ready state and unmutes the speakers.
\<close>

theorem export_timer_fallback:
  "(length (images st) = 0 \<and> audioAsset st = None \<longrightarrow> handleExport b st = st)
   \<and> (canvasRef st \<noteq> None \<and> images st \<noteq> [] \<and> audioAsset st = None \<and> throwsAt b = None
       \<and> (destNodeRef st \<or> audioRef st \<noteq> None) \<longrightarrow>
        appState (handleExport b st) = EXPORTING
        \<and> isPlaying (handleExport b st)
        \<and> currentTime (handleExport b st) = 0
        \<and> speakersGainNodeRef (handleExport b st) = map_option (\<lambda>g. 0) (speakersGainNodeRef st)
        \<and> recorder (handleExport b st) = Some (startRecorder (newRecorder b st))
        \<and> timers (handleExport b st) = timers st @ [totalDuration st * 1000]
        \<and> downloads (handleExport b st) = downloads st
        \<and> (timers st = [] \<longrightarrow>
             timers (timerFires (handleExport b st)) = []
             \<and> \<not> isPlaying (timerFires (handleExport b st))
             \<and> recorder (timerFires (handleExport b st)) = Some (newRecorder b st)
             \<and> appState (onstop (ondataavailable n (timerFires (handleExport b st)))) = READY
             \<and> speakersGainNodeRef (onstop (ondataavailable n (timerFires (handleExport b st))))
                 = map_option (\<lambda>g. 1) (speakersGainNodeRef st)
             \<and> downloads (onstop (ondataavailable n (timerFires (handleExport b st))))
                 = downloads st @ [\<lparr>download_name = ''lyricalflow.webm'',
                                     blob_parts = (if n > 0 then [n] else [])\<rparr>]))"
proof (intro conjI impI)
  assume "length (images st) = 0 \<and> audioAsset st = None"
  then show "handleExport b st = st" by (simp add: handleExport_def)
next
  assume a: "canvasRef st \<noteq> None \<and> images st \<noteq> [] \<and> audioAsset st = None \<and> throwsAt b = None
       \<and> (destNodeRef st \<or> audioRef st \<noteq> None)"
  have nr: "newRecorder b (exportBegin st) = newRecorder b st"
    by (simp add: newRecorder_def exportBegin_def bitrate_def)
  from a have h: "handleExport b st
      = (exportBegin st)\<lparr>currentTime := 0, recorder := Some (startRecorder (newRecorder b st)),
          isPlaying := True, timers := timers st @ [totalDuration st * 1000]\<rparr>"
    by (auto simp: handleExport_def exportSetup_def Let_def exportBegin_simps nr
        totalDuration_exportBegin)
  show "appState (handleExport b st) = EXPORTING" "isPlaying (handleExport b st)"
    "currentTime (handleExport b st) = 0"
    "speakersGainNodeRef (handleExport b st) = map_option (\<lambda>g. 0) (speakersGainNodeRef st)"
    "recorder (handleExport b st) = Some (startRecorder (newRecorder b st))"
    "timers (handleExport b st) = timers st @ [totalDuration st * 1000]"
    "downloads (handleExport b st) = downloads st"
    unfolding h by (simp_all add: exportBegin_simps)
  assume e: "timers st = []"
  have r: "(newRecorder b st)\<lparr>rec_state := Inactive\<rparr> = newRecorder b st"
    by (simp add: newRecorder_def)
  have tf: "timerFires (handleExport b st)
      = (exportBegin st)\<lparr>currentTime := 0, recorder := Some (newRecorder b st),
          isPlaying := False, timers := []\<rparr>"
    unfolding h using e by (simp add: timerFires_def startRecorder_def stopRecorder_def r)
  show "timers (timerFires (handleExport b st)) = []"
    "\<not> isPlaying (timerFires (handleExport b st))"
    "recorder (timerFires (handleExport b st)) = Some (newRecorder b st)"
    unfolding tf by simp_all
  show "appState (onstop (ondataavailable n (timerFires (handleExport b st)))) = READY"
    "speakersGainNodeRef (onstop (ondataavailable n (timerFires (handleExport b st))))
                 = map_option (\<lambda>g. 1) (speakersGainNodeRef st)"
    "downloads (onstop (ondataavailable n (timerFires (handleExport b st))))
                 = downloads st @ [\<lparr>download_name = ''lyricalflow.webm'',
                                     blob_parts = (if n > 0 then [n] else [])\<rparr>]"
    unfolding tf
    by (simp_all add: onstop_def ondataavailable_def addToast_def exportBegin_simps
        map_option_const newRecorder_def)
qed

text \<open>The empty project, and scenario A exported in a browser where nothing throws.\<close>

theorem export_timer_fallback_witness:
  "handleExport workingBrowser initialApp = initialApp
   \<and> timers (handleExport workingBrowser (scenarioA 0)) = [10000]
   \<and> appState (handleExport workingBrowser (scenarioA 0)) = EXPORTING
   \<and> downloads (onstop (ondataavailable 4096
         (timerFires (handleExport workingBrowser (scenarioA 0)))))
       = [\<lparr>download_name = ''lyricalflow.webm'', blob_parts = [4096]\<rparr>]
   \<and> appState (onstop (ondataavailable 4096
         (timerFires (handleExport workingBrowser (scenarioA 0))))) = READY"
proof -
  have e: "length (images initialApp) = 0 \<and> audioAsset initialApp = None"
    by (simp add: initialApp_def)
  have h: "canvasRef (scenarioA 0) \<noteq> None \<and> images (scenarioA 0) \<noteq> []
      \<and> audioAsset (scenarioA 0) = None \<and> throwsAt workingBrowser = None
      \<and> (destNodeRef (scenarioA 0) \<or> audioRef (scenarioA 0) \<noteq> None)"
    by (simp add: scenarioA_def initialApp_def workingBrowser_def)
  have t: "timers (scenarioA 0) = []" "downloads (scenarioA 0) = []"
    "totalDuration (scenarioA 0) * 1000 = 10000"
    by (simp_all add: scenarioA_def initialApp_def totalDuration_def mainAudioDuration_def
        or_default_def totalImageDuration_def mkClip_def)
  note w = export_timer_fallback [where st = "scenarioA 0" and b = workingBrowser and n = 4096]
  have a: "handleExport workingBrowser initialApp = initialApp"
    using export_timer_fallback [where st = initialApp and b = workingBrowser] e by blast
  from w h have b: "timers (handleExport workingBrowser (scenarioA 0))
      = timers (scenarioA 0) @ [totalDuration (scenarioA 0) * 1000]"
    and c: "appState (handleExport workingBrowser (scenarioA 0)) = EXPORTING"
    by blast+
  from w h t(1) have d: "downloads (onstop (ondataavailable 4096
         (timerFires (handleExport workingBrowser (scenarioA 0)))))
       = downloads (scenarioA 0) @ [\<lparr>download_name = ''lyricalflow.webm'',
            blob_parts = (if (4096::nat) > 0 then [4096] else [])\<rparr>]"
    and f: "appState (onstop (ondataavailable 4096
         (timerFires (handleExport workingBrowser (scenarioA 0))))) = READY"
    by blast+
  from a b c d f show ?thesis by (simp add: t)
qed

end
